theory Spec2Isabelle
  imports Complex_Main
begin

section \<open>JavaScript values\<close>

text \<open>
  The normalizer (\<^verbatim>\<open>lib/transactions.ts\<close>) takes a value of type \<^verbatim>\<open>unknown\<close>. The model
  is a datatype of the JSON-like values it can be given.

  A number is an IEEE double: the finite doubles are embedded by the rational each one
  denotes, next to the three non-finite values that \<^verbatim>\<open>Number.isFinite\<close> rejects. The sum
  of two finite doubles is their exact sum rounded to a double, or an infinity when it
  overflows; the rounding is a parameter of the model (see below).

  A string is a list of 8-bit characters, read as the code units below 256 (Latin-1).
\<close>

datatype jsnum = Fin rat | PosInf | NegInf | NaN

datatype jsvalue =
    JUndefined
  | JNull
  | JBool bool
  | JNum jsnum
  | JStr string
  | JArr "jsvalue list"
  | JObj "(string \<times> jsvalue) list"

type_synonym jsrecord = "(string \<times> jsvalue) list"

text \<open>
  Three built-ins are not code of the repository and depend on the double representation:
  \<^verbatim>\<open>Number(s)\<close> on a string, \<^verbatim>\<open>String(n)\<close> on a number, and the rounding of an exact
  result to the double that the arithmetic returns (the nearest double, or an infinity on
  overflow). They are parameters of the model, so every theorem holds whatever they compute.
\<close>

record js_builtins =
  Number_of :: "string \<Rightarrow> jsnum"
  String_of :: "jsnum \<Rightarrow> string"
  Round_of :: "rat \<Rightarrow> jsnum"

subsection \<open>Numbers\<close>

definition isFinite :: "jsnum \<Rightarrow> bool" where
  "isFinite n = (case n of Fin _ \<Rightarrow> True | _ \<Rightarrow> False)"

text \<open>
  \<^verbatim>\<open>a + b\<close> on numbers: the double addition. On two finite doubles it is the exact sum,
  rounded; it may be an infinity.
\<close>

fun js_add :: "js_builtins \<Rightarrow> jsnum \<Rightarrow> jsnum \<Rightarrow> jsnum" where
  "js_add B (Fin a) (Fin b) = Round_of B (a + b)"
| "js_add B NaN _ = NaN"
| "js_add B _ NaN = NaN"
| "js_add B PosInf NegInf = NaN"
| "js_add B NegInf PosInf = NaN"
| "js_add B PosInf _ = PosInf"
| "js_add B _ PosInf = PosInf"
| "js_add B NegInf _ = NegInf"
| "js_add B _ NegInf = NegInf"

text \<open>\<^verbatim>\<open>n > 0\<close>.\<close>

definition js_gt0 :: "jsnum \<Rightarrow> bool" where
  "js_gt0 n = (case n of Fin q \<Rightarrow> 0 < q | PosInf \<Rightarrow> True | _ \<Rightarrow> False)"

text \<open>Truthiness of a number: \<^verbatim>\<open>0\<close> and \<^verbatim>\<open>NaN\<close> are falsy.\<close>

definition truthy_num :: "jsnum \<Rightarrow> bool" where
  "truthy_num n = (case n of Fin q \<Rightarrow> q \<noteq> 0 | NaN \<Rightarrow> False | _ \<Rightarrow> True)"

subsection \<open>Strings\<close>

text \<open>
  \<^verbatim>\<open>trim\<close> removes the WhiteSpace and LineTerminator code units at both ends; below 256
  these are TAB, LF, VT, FF, CR, SPACE and NO-BREAK SPACE.
\<close>

definition isWhitespace :: "char \<Rightarrow> bool" where
  "isWhitespace c =
     (let n = (of_char c :: nat)
      in n = 9 \<or> n = 10 \<or> n = 11 \<or> n = 12 \<or> n = 13 \<or> n = 32 \<or> n = 160)"

definition trim :: "string \<Rightarrow> string" where
  "trim s = rev (dropWhile isWhitespace (rev (dropWhile isWhitespace s)))"

text \<open>
  \<^verbatim>\<open>toLowerCase\<close>: below 256 the upper-case letters are A-Z and the Latin-1 letters
  192-222 without the multiplication sign 215; each is 32 below its lower-case form.
\<close>

definition lowerChar :: "char \<Rightarrow> char" where
  "lowerChar c =
     (let n = (of_char c :: nat)
      in if (65 \<le> n \<and> n \<le> 90) \<or> (192 \<le> n \<and> n \<le> 222 \<and> n \<noteq> 215)
         then char_of (n + 32) else c)"

definition toLowerCase :: "string \<Rightarrow> string" where
  "toLowerCase s = map lowerChar s"

text \<open>Truthiness of a string: only the empty string is falsy.\<close>

definition truthy_str :: "string \<Rightarrow> bool" where
  "truthy_str s = (s \<noteq> [])"

subsection \<open>Values\<close>

text \<open>Truthiness of a value (\<^verbatim>\<open>!data\<close>, \<^verbatim>\<open>Boolean(x)\<close>).\<close>

definition truthy :: "jsvalue \<Rightarrow> bool" where
  "truthy v =
     (case v of
        JUndefined \<Rightarrow> False
      | JNull \<Rightarrow> False
      | JBool b \<Rightarrow> b
      | JNum n \<Rightarrow> truthy_num n
      | JStr s \<Rightarrow> truthy_str s
      | JArr _ \<Rightarrow> True
      | JObj _ \<Rightarrow> True)"

text \<open>\<^verbatim>\<open>a ?? b\<close> on values: \<^verbatim>\<open>b\<close> when \<^verbatim>\<open>a\<close> is \<^verbatim>\<open>null\<close> or \<^verbatim>\<open>undefined\<close>.\<close>

definition nullish :: "jsvalue \<Rightarrow> bool" where
  "nullish v = (case v of JUndefined \<Rightarrow> True | JNull \<Rightarrow> True | _ \<Rightarrow> False)"

definition coalesce :: "jsvalue \<Rightarrow> jsvalue \<Rightarrow> jsvalue" where
  "coalesce a b = (if nullish a then b else a)"

text \<open>
  \<^verbatim>\<open>a ?? b\<close> where \<^verbatim>\<open>a\<close> has a type \<^verbatim>\<open>T | undefined\<close>, modelled as an option.
\<close>

definition orElse :: "'a option \<Rightarrow> 'a option \<Rightarrow> 'a option" where
  "orElse a b = (case a of None \<Rightarrow> b | Some x \<Rightarrow> Some x)"

definition isArray :: "jsvalue \<Rightarrow> bool" where
  "isArray v = (case v of JArr _ \<Rightarrow> True | _ \<Rightarrow> False)"

text \<open>The elements of a value that \<^verbatim>\<open>Array.isArray\<close> has narrowed to an array.\<close>

definition elements :: "jsvalue \<Rightarrow> jsvalue list" where
  "elements v = (case v of JArr xs \<Rightarrow> xs | _ \<Rightarrow> [])"

text \<open>
  \<^verbatim>\<open>isRecord\<close> is \<^verbatim>\<open>typeof value === "object" && value !== null\<close>: it holds of objects and
  of arrays.
\<close>

definition isRecord :: "jsvalue \<Rightarrow> bool" where
  "isRecord v = (case v of JObj _ \<Rightarrow> True | JArr _ \<Rightarrow> True | _ \<Rightarrow> False)"

text \<open>
  The properties of a value narrowed to \<^verbatim>\<open>Record<string, unknown>\<close>. The own properties of
  an array are its indices and \<^verbatim>\<open>length\<close>; the program reads fixed names only, none of
  them an index or \<^verbatim>\<open>length\<close>, so an array is read as a record without properties.
\<close>

definition properties :: "jsvalue \<Rightarrow> jsrecord" where
  "properties v = (case v of JObj kvs \<Rightarrow> kvs | _ \<Rightarrow> [])"

definition getRecord :: "jsvalue \<Rightarrow> jsrecord option" where
  "getRecord v = (if isRecord v then Some (properties v) else None)"

text \<open>\<^verbatim>\<open>r.k\<close> on a record: \<^verbatim>\<open>undefined\<close> when the property is missing.\<close>

fun getProp :: "jsrecord \<Rightarrow> string \<Rightarrow> jsvalue" where
  "getProp [] k = JUndefined"
| "getProp ((k', v) # kvs) k = (if k' = k then v else getProp kvs k)"

text \<open>\<^verbatim>\<open>r?.k\<close> on a value of type \<^verbatim>\<open>Record | undefined\<close>.\<close>

definition optProp :: "jsrecord option \<Rightarrow> string \<Rightarrow> jsvalue" where
  "optProp r k = (case r of None \<Rightarrow> JUndefined | Some kvs \<Rightarrow> getProp kvs k)"

section \<open>The helpers of the normalizer\<close>

definition asString :: "jsvalue \<Rightarrow> string option" where
  "asString v =
     (case v of
        JStr s \<Rightarrow> if length (trim s) > 0 then Some (trim s) else None
      | _ \<Rightarrow> None)"

definition asNumber :: "js_builtins \<Rightarrow> jsvalue \<Rightarrow> jsnum option" where
  "asNumber B v =
     (case v of
        JNum n \<Rightarrow> if isFinite n then Some n else None
      | JStr s \<Rightarrow>
          if length (trim s) > 0
          then (let parsed = Number_of B s in if isFinite parsed then Some parsed else None)
          else None
      | _ \<Rightarrow> None)"

definition toId :: "js_builtins \<Rightarrow> jsvalue \<Rightarrow> string option" where
  "toId B v =
     (case v of
        JStr s \<Rightarrow> Some s
      | JNum n \<Rightarrow> Some (String_of B n)
      | _ \<Rightarrow> None)"

datatype NormalizedStatus = Success | Failed | Abandoned | Other

text \<open>
  The argument of \<^verbatim>\<open>normalizeStatus\<close> has type \<^verbatim>\<open>string | null | undefined\<close>; \<open>None\<close>
  stands for both \<^verbatim>\<open>null\<close> and \<^verbatim>\<open>undefined\<close>, which the function does not tell apart.
\<close>

definition normalizeStatus :: "string option \<Rightarrow> NormalizedStatus" where
  "normalizeStatus v =
     (case v of
        None \<Rightarrow> Other
      | Some s \<Rightarrow>
          if \<not> truthy_str s then Other
          else (let status = toLowerCase s
                in if status \<in> set [''success'', ''successful''] then Success
                   else if status \<in> set [''failed'', ''failure'', ''error''] then Failed
                   else if status \<in> set
                             [''abandoned'', ''cancelled'', ''canceled'', ''timeout'',
                              ''timed out'', ''expired'']
                        then Abandoned
                        else Other))"

text \<open>\<^verbatim>\<open>Boolean(x)\<close> on a value of type \<^verbatim>\<open>string | undefined\<close> or \<^verbatim>\<open>number | undefined\<close>.\<close>

definition truthy_ostr :: "string option \<Rightarrow> bool" where
  "truthy_ostr x = (case x of None \<Rightarrow> False | Some s \<Rightarrow> truthy_str s)"

definition truthy_onum :: "jsnum option \<Rightarrow> bool" where
  "truthy_onum x = (case x of None \<Rightarrow> False | Some n \<Rightarrow> truthy_num n)"

text \<open>\<^verbatim>\<open>xs.filter(Boolean)\<close> and \<^verbatim>\<open>xs.find(Boolean)\<close> on an array of \<^verbatim>\<open>string | undefined\<close>.\<close>

fun filterBoolean :: "string option list \<Rightarrow> string list" where
  "filterBoolean [] = []"
| "filterBoolean (None # xs) = filterBoolean xs"
| "filterBoolean (Some s # xs) = (if truthy_str s then s # filterBoolean xs else filterBoolean xs)"

definition findBoolean :: "string option list \<Rightarrow> string option" where
  "findBoolean xs = (case List.find truthy_ostr xs of None \<Rightarrow> None | Some x \<Rightarrow> x)"

text \<open>\<^verbatim>\<open>parts.join(sep)\<close>.\<close>

fun join :: "string \<Rightarrow> string list \<Rightarrow> string" where
  "join sep [] = []"
| "join sep [x] = x"
| "join sep (x # y # ys) = x @ sep @ join sep (y # ys)"

definition buildName :: "string option \<Rightarrow> string option \<Rightarrow> string option \<Rightarrow> string option" where
  "buildName firstName lastName fallback =
     (let parts = filterBoolean [firstName, lastName]
      in if length parts \<noteq> 0 then Some (trim (join '' '' parts))
         else (case fallback of
                 None \<Rightarrow> None
               | Some f \<Rightarrow> if truthy_str (trim f) then Some (trim f) else None))"

text \<open>\<^verbatim>\<open>typeof error === "string"\<close>.\<close>

definition isStringValue :: "jsvalue \<Rightarrow> bool" where
  "isStringValue v = (case v of JStr _ \<Rightarrow> True | _ \<Rightarrow> False)"

text \<open>
  The function mapped over \<^verbatim>\<open>record.errors\<close> in \<^verbatim>\<open>extractErrorFromLog\<close>:
  \<^verbatim>\<open>isRecord(error) ? asString(error.message ?? error.detail ?? error.description) : undefined\<close>.
\<close>

definition errorMessage :: "jsvalue \<Rightarrow> string option" where
  "errorMessage error =
     (case getRecord error of
        None \<Rightarrow> None
      | Some e \<Rightarrow>
          asString (coalesce (coalesce (getProp e ''message'') (getProp e ''detail''))
                             (getProp e ''description'')))"

text \<open>
  The block guarded by \<^verbatim>\<open>Array.isArray(record.errors)\<close>: \<open>Some s\<close> when it returns
  \<open>s\<close>, \<open>None\<close> when control leaves the block without returning.
\<close>

definition errorsBlock :: "jsvalue list \<Rightarrow> string option" where
  "errorsBlock errors =
     (let first = List.find isStringValue errors;
          firstMessage = findBoolean (map errorMessage errors)
      in case first of
           Some (JStr s) \<Rightarrow>
             if truthy_str s then Some s
             else if truthy_ostr firstMessage then firstMessage else None
         | _ \<Rightarrow> if truthy_ostr firstMessage then firstMessage else None)"

definition extractErrorFromLog :: "jsvalue \<Rightarrow> string option" where
  "extractErrorFromLog logValue =
     (case getRecord logValue of
        None \<Rightarrow> None
      | Some rec \<Rightarrow>
          (case (if isArray (getProp rec ''errors'')
                 then errorsBlock (elements (getProp rec ''errors'')) else None) of
             Some s \<Rightarrow> Some s
           | None \<Rightarrow> asString (getProp rec ''message'')))"

section \<open>The library normalizer\<close>

record NormalizedTransaction =
  txnId :: "string option"
  status :: NormalizedStatus
  rawStatus :: "string option"
  customerName :: "string option"
  customerEmail :: "string option"
  failureReason :: "string option"
  gatewayResponse :: "string option"
  amount :: "jsnum option"
  currency :: "string option"
  createdAt :: "string option"

record TransactionMeta =
  total :: "jsnum option"
  totalVolume :: "jsnum option"
  metaCurrency :: "string option"
  message :: "string option"
  page :: "jsnum option"
  perPage :: "jsnum option"
  pageCount :: "jsnum option"

record NormalizedTransactionResult =
  transactions :: "NormalizedTransaction list"
  meta :: TransactionMeta

text \<open>
  The fields \<open>txnId\<close> and \<open>metaCurrency\<close> are \<^verbatim>\<open>id\<close> and \<^verbatim>\<open>currency\<close> in the source.
  \<^verbatim>\<open>normalizeTransaction\<close> returns \<^verbatim>\<open>null\<close> (\<open>None\<close>) on an entry that is not a record.
\<close>

definition normalizeTransaction :: "js_builtins \<Rightarrow> jsvalue \<Rightarrow> NormalizedTransaction option" where
  "normalizeTransaction B entryValue =
     (case getRecord entryValue of
        None \<Rightarrow> None
      | Some entry \<Rightarrow>
         (let rawStatusV = asString (coalesce (coalesce (getProp entry ''status'')
                                        (getProp entry ''state'')) (getProp entry ''current_status''));
              normalizedStatus = normalizeStatus rawStatusV;
              customer = orElse (orElse (getRecord (getProp entry ''customer''))
                                        (getRecord (getProp entry ''customer_data'')))
                                (getRecord (getProp entry ''customerDetails''));
              authorization = getRecord (getProp entry ''authorization'');
              metadata = getRecord (getProp entry ''metadata'');
              customerNameV =
                orElse
                  (buildName
                    (asString (coalesce (getProp entry ''first_name'') (optProp customer ''first_name'')))
                    (asString (coalesce (getProp entry ''last_name'') (optProp customer ''last_name'')))
                    (asString (coalesce (coalesce (coalesce (optProp customer ''name'')
                        (getProp entry ''customer_name'')) (getProp entry ''customerName''))
                        (getProp entry ''name''))))
                  (asString (optProp authorization ''account_name''));
              customerEmailV =
                orElse (orElse (orElse
                  (asString (optProp customer ''email''))
                  (asString (coalesce (coalesce (getProp entry ''customer_email'')
                      (getProp entry ''email'')) (getProp entry ''customerEmail''))))
                  (asString (optProp authorization ''email'')))
                  (asString (optProp metadata ''email''));
              gatewayResponseV = asString (coalesce (getProp entry ''gateway_response'')
                                                    (getProp entry ''gatewayResponse''));
              failureReasonV =
                orElse (orElse (orElse
                  gatewayResponseV
                  (asString (coalesce (getProp entry ''failure_reason'') (getProp entry ''failureReason''))))
                  (asString (coalesce (getProp entry ''reason'') (getProp entry ''status_reason''))))
                  (extractErrorFromLog (getProp entry ''log''));
              idValue = coalesce (coalesce (coalesce (getProp entry ''id'') (getProp entry ''reference''))
                                  (getProp entry ''transaction_id'')) (getProp entry ''transactionId'');
              amountV = asNumber B (coalesce (getProp entry ''amount'') (getProp entry ''amount_in_minor''));
              currencyV = asString (getProp entry ''currency'');
              createdAtV = asString (coalesce (getProp entry ''createdAt'') (getProp entry ''created_at''))
          in Some \<lparr> txnId = toId B idValue,
                    status = normalizedStatus,
                    rawStatus = map_option toLowerCase rawStatusV,
                    customerName = customerNameV,
                    customerEmail = customerEmailV,
                    failureReason = failureReasonV,
                    gatewayResponse = gatewayResponseV,
                    amount = amountV,
                    currency = currencyV,
                    createdAt = createdAtV \<rparr>))"

definition sumAmounts :: "js_builtins \<Rightarrow> NormalizedTransaction list \<Rightarrow> jsnum option" where
  "sumAmounts B txns =
     (let total = foldl (\<lambda>acc txn. js_add B acc (case amount txn of None \<Rightarrow> Fin 0 | Some a \<Rightarrow> a))
                        (Fin 0) txns
      in if js_gt0 total then Some total else None)"

definition inferCurrency :: "NormalizedTransaction list \<Rightarrow> string option" where
  "inferCurrency txns =
     (case List.find (\<lambda>txn. truthy_ostr (currency txn)) txns of
        None \<Rightarrow> None
      | Some txn \<Rightarrow> currency txn)"

definition possibleKeys :: "string list" where
  "possibleKeys = [''transactions'', ''data'', ''items'', ''records'', ''results'']"

definition extractTransactionArrays :: "jsvalue \<Rightarrow> jsvalue list" where
  "extractTransactionArrays data =
     (if \<not> truthy data then []
      else if isArray data then [data]
      else (case getRecord data of
              Some d \<Rightarrow> filter isArray (map (\<lambda>key. getProp d key) possibleKeys)
            | None \<Rightarrow> []))"

definition isTransactionPayload :: "jsvalue \<Rightarrow> bool" where
  "isTransactionPayload v =
     (case getRecord v of None \<Rightarrow> False | Some r \<Rightarrow> isArray (getProp r ''data''))"

text \<open>\<^verbatim>\<open>transactions.length\<close> as a number.\<close>

definition lengthNum :: "'a list \<Rightarrow> jsnum" where
  "lengthNum xs = Fin (of_nat (length xs))"

text \<open>
  The two assignments \<^verbatim>\<open>meta.currency = ...\<close> and \<^verbatim>\<open>meta.totalVolume = ...\<close> mutate the
  local object \<^verbatim>\<open>meta\<close>; the model passes the updated record on.
\<close>

definition normalizeTransactionsFromOutput ::
    "js_builtins \<Rightarrow> jsvalue \<Rightarrow> NormalizedTransactionResult" where
  "normalizeTransactionsFromOutput B data =
     (if isTransactionPayload data then
        (let d = properties data;
             txns = List.map_filter (normalizeTransaction B) (elements (getProp d ''data''));
             metaRecord = getRecord (getProp d ''meta'');
             meta0 = \<lparr> total = orElse (asNumber B (optProp metaRecord ''total'')) (Some (lengthNum txns)),
                       totalVolume = asNumber B (coalesce (optProp metaRecord ''total_volume'')
                                                          (optProp metaRecord ''total_volume_in_minor'')),
                       metaCurrency = asString (optProp metaRecord ''currency''),
                       message = asString (getProp d ''message''),
                       page = asNumber B (optProp metaRecord ''page''),
                       perPage = asNumber B (optProp metaRecord ''per_page''),
                       pageCount = asNumber B (optProp metaRecord ''page_count'') \<rparr>;
             meta1 = (if \<not> truthy_ostr (metaCurrency meta0)
                      then meta0\<lparr> metaCurrency := inferCurrency txns \<rparr> else meta0);
             meta2 = (if \<not> truthy_onum (totalVolume meta1)
                      then meta1\<lparr> totalVolume := sumAmounts B txns \<rparr> else meta1)
         in \<lparr> transactions = txns, meta = meta2 \<rparr>)
      else
        (let candidates = extractTransactionArrays data;
             source = List.find isArray candidates;
             txns = List.map_filter (normalizeTransaction B)
                      (case source of None \<Rightarrow> [] | Some a \<Rightarrow> elements a);
             rec = getRecord data;
             recordMeta = getRecord (optProp rec ''meta'');
             meta0 = \<lparr> total = orElse (asNumber B (coalesce (optProp recordMeta ''total'')
                                                              (optProp rec ''total'')))
                                      (Some (lengthNum txns)),
                       totalVolume = asNumber B (coalesce (optProp recordMeta ''total_volume'')
                                                          (optProp rec ''total_volume'')),
                       metaCurrency = orElse (asString (coalesce (optProp recordMeta ''currency'')
                                                                 (optProp rec ''currency'')))
                                             (inferCurrency txns),
                       message = asString (optProp rec ''message''),
                       page = None,
                       perPage = None,
                       pageCount = None \<rparr>;
             meta1 = (if \<not> truthy_onum (totalVolume meta0)
                      then meta0\<lparr> totalVolume := sumAmounts B txns \<rparr> else meta0)
         in \<lparr> transactions = txns, meta = meta1 \<rparr>))"

section \<open>Currency-aware formatting\<close>

text \<open>
  \<^verbatim>\<open>Intl.NumberFormat\<close> and \<^verbatim>\<open>Number.prototype.toLocaleString\<close> are built-ins whose
  results depend on the locale data of the host. They are parameters of the model.
  Constructing a currency formatter raises a \<^verbatim>\<open>RangeError\<close> on a code it does not accept,
  so the two formatters return a sum; \<^verbatim>\<open>toLocaleString()\<close> without arguments does not
  raise.
\<close>

datatype js_error = RangeError

record intl =
  formatCurrency :: "string \<Rightarrow> jsnum \<Rightarrow> js_error + string"
  formatDecimal :: "jsnum \<Rightarrow> js_error + string"
  toLocaleString :: "jsnum \<Rightarrow> string"

text \<open>The argument \<^verbatim>\<open>currency?: string\<close> is an option; the \<^verbatim>\<open>try\<close> block is \<open>attempt\<close>.\<close>

definition formatCurrencyAmount :: "intl \<Rightarrow> jsnum \<Rightarrow> string option \<Rightarrow> string" where
  "formatCurrencyAmount I v cur =
     (let attempt = (case cur of
                       Some c \<Rightarrow> if truthy_str c then formatCurrency I c v else formatDecimal I v
                     | None \<Rightarrow> formatDecimal I v)
      in case attempt of
           Inr s \<Rightarrow> s
         | Inl _ \<Rightarrow>
             (case cur of
                Some c \<Rightarrow> if truthy_str c then c @ '' '' @ toLocaleString I v
                          else toLocaleString I v
              | None \<Rightarrow> toLocaleString I v))"

section \<open>The normalizer embedded in the transaction-summary component\<close>

text \<open>
  The earlier revision of \<^verbatim>\<open>components/ai-elements/transaction-summary.tsx\<close> carries its
  own copy of the normalizer. Its helpers \<^verbatim>\<open>extractTransactionArrays\<close>,
  \<^verbatim>\<open>normalizeStatus\<close>, \<^verbatim>\<open>buildName\<close>, \<^verbatim>\<open>extractErrorFromLog\<close>, \<^verbatim>\<open>asString\<close>,
  \<^verbatim>\<open>asNumber\<close>, \<^verbatim>\<open>getRecord\<close>, \<^verbatim>\<open>isRecord\<close>, \<^verbatim>\<open>toId\<close> and
  \<^verbatim>\<open>isTransactionPayload\<close> are the library's text, line for line, so the definitions
  above embed them too. Its types lack \<^verbatim>\<open>gatewayResponse\<close> and the pagination fields, and
  \<^verbatim>\<open>normalizeTransaction\<close> and \<^verbatim>\<open>normalizeTransactionsFromOutput\<close> differ; they are
  embedded here with the prefix \<open>c_\<close>.
\<close>

record C_NormalizedTransaction =
  c_id :: "string option"
  c_status :: NormalizedStatus
  c_rawStatus :: "string option"
  c_customerName :: "string option"
  c_customerEmail :: "string option"
  c_failureReason :: "string option"
  c_amount :: "jsnum option"
  c_currency :: "string option"
  c_createdAt :: "string option"

record C_TransactionMeta =
  c_total :: "jsnum option"
  c_totalVolume :: "jsnum option"
  c_metaCurrency :: "string option"
  c_message :: "string option"

record C_NormalizedTransactionResult =
  c_transactions :: "C_NormalizedTransaction list"
  c_meta :: C_TransactionMeta

definition c_normalizeTransaction ::
    "js_builtins \<Rightarrow> jsvalue \<Rightarrow> C_NormalizedTransaction option" where
  "c_normalizeTransaction B entryValue =
     (case getRecord entryValue of
        None \<Rightarrow> None
      | Some entry \<Rightarrow>
         (let rawStatusV = asString (coalesce (coalesce (getProp entry ''status'')
                                        (getProp entry ''state'')) (getProp entry ''current_status''));
              normalizedStatus = normalizeStatus rawStatusV;
              customer = orElse (orElse (getRecord (getProp entry ''customer''))
                                        (getRecord (getProp entry ''customer_data'')))
                                (getRecord (getProp entry ''customerDetails''));
              authorization = getRecord (getProp entry ''authorization'');
              metadata = getRecord (getProp entry ''metadata'');
              customerNameV =
                orElse
                  (buildName
                    (asString (coalesce (optProp customer ''first_name'') (getProp entry ''first_name'')))
                    (asString (coalesce (optProp customer ''last_name'') (getProp entry ''last_name'')))
                    (asString (coalesce (coalesce (coalesce (optProp customer ''name'')
                        (getProp entry ''customer_name'')) (getProp entry ''customerName''))
                        (getProp entry ''name''))))
                  (asString (optProp authorization ''account_name''));
              customerEmailV =
                orElse (orElse (orElse
                  (asString (optProp customer ''email''))
                  (asString (coalesce (getProp entry ''customer_email'') (getProp entry ''email''))))
                  (asString (optProp authorization ''email'')))
                  (asString (optProp metadata ''email''));
              failureReasonV =
                orElse (orElse (orElse
                  (asString (coalesce (getProp entry ''gateway_response'')
                                      (getProp entry ''gatewayResponse'')))
                  (asString (coalesce (getProp entry ''failure_reason'') (getProp entry ''failureReason''))))
                  (asString (coalesce (getProp entry ''reason'') (getProp entry ''status_reason''))))
                  (extractErrorFromLog (getProp entry ''log''));
              idValue = coalesce (coalesce (coalesce (getProp entry ''id'') (getProp entry ''reference''))
                                  (getProp entry ''transaction_id'')) (getProp entry ''transactionId'');
              amountV = asNumber B (coalesce (getProp entry ''amount'') (getProp entry ''amount_in_minor''));
              currencyV = asString (getProp entry ''currency'');
              createdAtV = asString (coalesce (getProp entry ''createdAt'') (getProp entry ''created_at''))
          in Some \<lparr> c_id = toId B idValue,
                    c_status = normalizedStatus,
                    c_rawStatus = map_option toLowerCase rawStatusV,
                    c_customerName = customerNameV,
                    c_customerEmail = customerEmailV,
                    c_failureReason = failureReasonV,
                    c_amount = amountV,
                    c_currency = currencyV,
                    c_createdAt = createdAtV \<rparr>))"

definition c_sumAmounts :: "js_builtins \<Rightarrow> C_NormalizedTransaction list \<Rightarrow> jsnum option" where
  "c_sumAmounts B txns =
     (let total = foldl (\<lambda>acc txn. js_add B acc (case c_amount txn of None \<Rightarrow> Fin 0 | Some a \<Rightarrow> a))
                        (Fin 0) txns
      in if js_gt0 total then Some total else None)"

definition c_inferCurrency :: "C_NormalizedTransaction list \<Rightarrow> string option" where
  "c_inferCurrency txns =
     (case List.find (\<lambda>txn. truthy_ostr (c_currency txn)) txns of
        None \<Rightarrow> None
      | Some txn \<Rightarrow> c_currency txn)"

definition c_normalizeTransactionsFromOutput ::
    "js_builtins \<Rightarrow> jsvalue \<Rightarrow> C_NormalizedTransactionResult" where
  "c_normalizeTransactionsFromOutput B data =
     (if isTransactionPayload data then
        (let d = properties data;
             txns = List.map_filter (c_normalizeTransaction B) (elements (getProp d ''data''));
             metaRecord = getRecord (getProp d ''meta'');
             meta0 = \<lparr> c_total = orElse (asNumber B (optProp metaRecord ''total''))
                                        (Some (lengthNum txns)),
                       c_totalVolume = asNumber B (optProp metaRecord ''total_volume''),
                       c_metaCurrency = asString (optProp metaRecord ''currency''),
                       c_message = asString (getProp d ''message'') \<rparr>;
             meta1 = (if \<not> truthy_ostr (c_metaCurrency meta0)
                      then meta0\<lparr> c_metaCurrency := c_inferCurrency txns \<rparr> else meta0);
             meta2 = (if \<not> truthy_onum (c_totalVolume meta1)
                      then meta1\<lparr> c_totalVolume := c_sumAmounts B txns \<rparr> else meta1)
         in \<lparr> c_transactions = txns, c_meta = meta2 \<rparr>)
      else
        (let candidates = extractTransactionArrays data;
             source = List.find isArray candidates;
             txns = List.map_filter (c_normalizeTransaction B)
                      (case source of None \<Rightarrow> [] | Some a \<Rightarrow> elements a);
             rec = getRecord data;
             recordMeta = getRecord (optProp rec ''meta'');
             meta0 = \<lparr> c_total = orElse (asNumber B (coalesce (optProp recordMeta ''total'')
                                                                (optProp rec ''total'')))
                                        (Some (lengthNum txns)),
                       c_totalVolume = asNumber B (coalesce (optProp recordMeta ''total_volume'')
                                                            (optProp rec ''total_volume'')),
                       c_metaCurrency = orElse (asString (coalesce (optProp recordMeta ''currency'')
                                                                   (optProp rec ''currency'')))
                                               (c_inferCurrency txns),
                       c_message = asString (optProp rec ''message'') \<rparr>;
             meta1 = (if \<not> truthy_onum (c_totalVolume meta0)
                      then meta0\<lparr> c_totalVolume := c_sumAmounts B txns \<rparr> else meta0)
         in \<lparr> c_transactions = txns, c_meta = meta1 \<rparr>))"

section \<open>Notions used to state the properties\<close>

text \<open>
  To evaluate the model on a concrete input the parameters need values. The inputs evaluated
  below hold no numeric string and no numeric id, so neither conversion is called on them;
  constant functions stand in. Their amounts are integers below 1000, whose sums are doubles,
  so the rounding returns the exact sum.
\<close>

definition exampleBuiltins :: js_builtins where
  "exampleBuiltins =
     \<lparr> Number_of = (\<lambda>s. NaN), String_of = (\<lambda>n. ''NaN''), Round_of = (\<lambda>q. Fin q) \<rparr>"

text \<open>
  A result is well formed when the status of every transaction is the classification of its
  raw status, every amount, the total and the pagination numbers are finite, and the total
  volume, when there is one, is neither \<^verbatim>\<open>0\<close> nor \<^verbatim>\<open>NaN\<close>.
\<close>

definition finiteOpt :: "jsnum option \<Rightarrow> bool" where
  "finiteOpt x = (case x of None \<Rightarrow> True | Some n \<Rightarrow> isFinite n)"

definition wellFormedTransaction :: "NormalizedTransaction \<Rightarrow> bool" where
  "wellFormedTransaction t =
     (finiteOpt (amount t) \<and> status t = normalizeStatus (rawStatus t))"

definition wellFormedMeta :: "TransactionMeta \<Rightarrow> bool" where
  "wellFormedMeta m =
     (finiteOpt (TransactionMeta.total m)
      \<and> (totalVolume m = None \<or> truthy_onum (totalVolume m))
      \<and> finiteOpt (page m) \<and> finiteOpt (perPage m) \<and> finiteOpt (pageCount m))"

definition wellFormedResult :: "NormalizedTransactionResult \<Rightarrow> bool" where
  "wellFormedResult r = (list_all wellFormedTransaction (transactions r) \<and> wellFormedMeta (meta r))"

text \<open>
  A mapping is a plain object. \<open>nonMappingCount\<close> counts the entries that are not mappings,
  \<open>nonRecordCount\<close> those that \<^verbatim>\<open>isRecord\<close> rejects.
\<close>

definition isMapping :: "jsvalue \<Rightarrow> bool" where
  "isMapping v = (case v of JObj _ \<Rightarrow> True | _ \<Rightarrow> False)"

definition nonMappingCount :: "jsvalue list \<Rightarrow> nat" where
  "nonMappingCount xs = length (filter (\<lambda>e. \<not> isMapping e) xs)"

definition nonRecordCount :: "jsvalue list \<Rightarrow> nat" where
  "nonRecordCount xs = length (filter (\<lambda>e. \<not> isRecord e) xs)"

text \<open>The elements of the first array in a list of values; empty when there is none.\<close>

fun firstArrayOf :: "jsvalue list \<Rightarrow> jsvalue list" where
  "firstArrayOf [] = []"
| "firstArrayOf (JArr xs # vs) = xs"
| "firstArrayOf (v # vs) = firstArrayOf vs"

text \<open>
  The reported volume of the amended claim C3. For an envelope the volume field is
  \<^verbatim>\<open>meta.total_volume\<close> when that is neither \<^verbatim>\<open>null\<close> nor \<^verbatim>\<open>undefined\<close>, and
  \<^verbatim>\<open>meta.total_volume_in_minor\<close> only otherwise; for any other shape it is
  \<^verbatim>\<open>meta.total_volume\<close> when that is neither \<^verbatim>\<open>null\<close> nor \<^verbatim>\<open>undefined\<close>, and the
  \<^verbatim>\<open>total_volume\<close> of the value itself otherwise. The reported volume is that one field
  when it is a finite number or a string that parses to one, and is absent otherwise: a
  field of another kind is not passed over in favour of the next one.
\<close>

definition reportedVolume :: "js_builtins \<Rightarrow> jsvalue \<Rightarrow> jsnum option" where
  "reportedVolume B d =
     (if isTransactionPayload d
      then (let m = getRecord (getProp (properties d) ''meta'')
            in asNumber B (coalesce (optProp m ''total_volume'')
                                    (optProp m ''total_volume_in_minor'')))
      else (let r = getRecord d; m = getRecord (optProp r ''meta'')
            in asNumber B (coalesce (optProp m ''total_volume'') (optProp r ''total_volume''))))"

text \<open>
  The sum of the amounts of a batch: the amounts are added one after the other in source
  order, starting from 0, an absent amount counting as 0, each addition being the double
  addition. A transaction has a zero amount when its amount is absent or 0.
\<close>

definition amountOrZero :: "NormalizedTransaction \<Rightarrow> jsnum" where
  "amountOrZero t = (case amount t of None \<Rightarrow> Fin 0 | Some a \<Rightarrow> a)"

fun sumFrom :: "js_builtins \<Rightarrow> jsnum \<Rightarrow> jsnum list \<Rightarrow> jsnum" where
  "sumFrom B acc [] = acc"
| "sumFrom B acc (x # xs) = sumFrom B (js_add B acc x) xs"

definition amountTotal :: "js_builtins \<Rightarrow> NormalizedTransaction list \<Rightarrow> jsnum" where
  "amountTotal B txns = sumFrom B (Fin 0) (map amountOrZero txns)"

definition zeroAmount :: "NormalizedTransaction \<Rightarrow> bool" where
  "zeroAmount t = (case amount t of None \<Rightarrow> True | Some a \<Rightarrow> a = Fin 0)"

text \<open>
  An instance of the formatting parameters, for evaluation: a host whose currency formatter
  rejects the code it is given.
\<close>

definition exampleIntl :: intl where
  "exampleIntl = \<lparr> formatCurrency = (\<lambda>c v. Inl RangeError),
                    formatDecimal = (\<lambda>v. Inr ''1,234.5''),
                    toLocaleString = (\<lambda>v. ''1,234.5'') \<rparr>"

text \<open>
  A string is trimmed when it is not empty and neither begins nor ends with whitespace.
\<close>

definition trimmed :: "string \<Rightarrow> bool" where
  "trimmed s = (s \<noteq> [] \<and> \<not> isWhitespace (hd s) \<and> \<not> isWhitespace (last s))"

definition optTrimmed :: "string option \<Rightarrow> bool" where
  "optTrimmed x = (case x of None \<Rightarrow> True | Some s \<Rightarrow> trimmed s)"



text \<open>
  Fallback chains, written as the specification words them: the first value of a list that
  is neither \<^verbatim>\<open>null\<close> nor \<^verbatim>\<open>undefined\<close>, the first record of a list of values, the first
  defined result of a list of optional results.
\<close>

fun firstPresent :: "jsvalue list \<Rightarrow> jsvalue" where
  "firstPresent [] = JUndefined"
| "firstPresent [v] = v"
| "firstPresent (v # w # vs) = (if nullish v then firstPresent (w # vs) else v)"

fun firstRecord :: "jsvalue list \<Rightarrow> jsrecord option" where
  "firstRecord [] = None"
| "firstRecord (v # vs) = (if isRecord v then Some (properties v) else firstRecord vs)"

fun firstDefined :: "'a option list \<Rightarrow> 'a option" where
  "firstDefined [] = None"
| "firstDefined (Some x # xs) = Some x"
| "firstDefined (None # xs) = firstDefined xs"

text \<open>
  The notions of the amended claim C6. The customer-like sub-object of an entry is the first
  of \<^verbatim>\<open>customer\<close>, \<^verbatim>\<open>customer_data\<close>, \<^verbatim>\<open>customerDetails\<close> that is an object. A name
  part is read from one value, the entry-level field when that is neither \<^verbatim>\<open>null\<close> nor
  \<^verbatim>\<open>undefined\<close> and the sub-object's field otherwise, and exists when that value is a
  non-blank string. The whole name is read likewise from the first of the sub-object's
  \<^verbatim>\<open>name\<close> and the entry's \<^verbatim>\<open>customer_name\<close>, \<^verbatim>\<open>customerName\<close>, \<^verbatim>\<open>name\<close> that is
  neither \<^verbatim>\<open>null\<close> nor \<^verbatim>\<open>undefined\<close>. The account name is that of the authorization.
\<close>

definition customerLike :: "jsrecord \<Rightarrow> jsrecord option" where
  "customerLike entry =
     firstRecord [getProp entry ''customer'', getProp entry ''customer_data'',
                  getProp entry ''customerDetails'']"

definition namePart :: "jsrecord \<Rightarrow> string \<Rightarrow> string option" where
  "namePart entry key =
     asString (firstPresent [getProp entry key, optProp (customerLike entry) key])"

definition wholeName :: "jsrecord \<Rightarrow> string option" where
  "wholeName entry =
     asString (firstPresent [optProp (customerLike entry) ''name'', getProp entry ''customer_name'',
                             getProp entry ''customerName'', getProp entry ''name''])"

definition accountName :: "jsrecord \<Rightarrow> string option" where
  "accountName entry =
     (case getProp entry ''authorization'' of
        JObj a \<Rightarrow> asString (getProp a ''account_name'')
      | _ \<Rightarrow> None)"







text \<open>
  The claims C6 and C7 as they are worded, for comparison with the code. Every place the
  claim lists is a candidate, in the order it lists them, and a candidate that is not a
  non-blank string is passed over in favour of the next one.
\<close>

fun firstText :: "jsvalue list \<Rightarrow> string option" where
  "firstText [] = None"
| "firstText (v # vs) = (case asString v of Some s \<Rightarrow> Some s | None \<Rightarrow> firstText vs)"

definition statedNamePart :: "jsrecord \<Rightarrow> string \<Rightarrow> string option" where
  "statedNamePart entry key =
     firstText [getProp entry key,
                optProp (getRecord (getProp entry ''customer'')) key,
                optProp (getRecord (getProp entry ''customer_data'')) key,
                optProp (getRecord (getProp entry ''customerDetails'')) key]"

definition statedWholeName :: "jsrecord \<Rightarrow> string option" where
  "statedWholeName entry =
     firstText [optProp (getRecord (getProp entry ''customer'')) ''name'',
                getProp entry ''customer_name'', getProp entry ''customerName'',
                getProp entry ''name'']"

definition statedCustomerName :: "jsrecord \<Rightarrow> string option" where
  "statedCustomerName entry =
     (case (statedNamePart entry ''first_name'', statedNamePart entry ''last_name'') of
        (Some f, Some l) \<Rightarrow> Some (f @ '' '' @ l)
      | (Some f, None) \<Rightarrow> Some f
      | (None, Some l) \<Rightarrow> Some l
      | (None, None) \<Rightarrow> firstDefined [statedWholeName entry, accountName entry])"






text \<open>
  The fields of a transaction that the library and the component compute alike.
\<close>

definition coreFields ::
    "NormalizedTransaction \<Rightarrow>
       string option \<times> NormalizedStatus \<times> string option \<times> string option \<times> jsnum option
         \<times> string option \<times> string option" where
  "coreFields t =
     (txnId t, status t, rawStatus t, failureReason t, amount t, currency t, createdAt t)"

definition c_coreFields ::
    "C_NormalizedTransaction \<Rightarrow>
       string option \<times> NormalizedStatus \<times> string option \<times> string option \<times> jsnum option
         \<times> string option \<times> string option" where
  "c_coreFields t =
     (c_id t, c_status t, c_rawStatus t, c_failureReason t, c_amount t, c_currency t,
      c_createdAt t)"

text \<open>The \<^verbatim>\<open>meta\<close> record of an envelope.\<close>

definition envelopeMeta :: "jsvalue \<Rightarrow> jsrecord option" where
  "envelopeMeta d = getRecord (getProp (properties d) ''meta'')"

section \<open>Status classification\<close>

lemma toLowerCase_Nil_iff: "toLowerCase s = [] \<longleftrightarrow> s = []"
  by (simp add: toLowerCase_def)

text \<open>
  C2. \<^verbatim>\<open>normalizeStatus\<close> is a total classification that depends on the lower-cased
  status only: the result is \<open>Success\<close> exactly for the strings that lower-case to
  success or successful, \<open>Failed\<close> exactly for failed, failure, error, \<open>Abandoned\<close> exactly
  for abandoned, cancelled, canceled, timeout, timed out, expired, and \<open>Other\<close> for every
  other string and for an absent status. Two strings with the same lower-casing are
  classified alike. The four examples of the specification follow.
\<close>

theorem normalizeStatus_classification:
  "(normalizeStatus v = Success \<longleftrightarrow>
      (\<exists>s. v = Some s \<and> toLowerCase s \<in> {''success'', ''successful''}))
   \<and> (normalizeStatus v = Failed \<longleftrightarrow>
      (\<exists>s. v = Some s \<and> toLowerCase s \<in> {''failed'', ''failure'', ''error''}))
   \<and> (normalizeStatus v = Abandoned \<longleftrightarrow>
      (\<exists>s. v = Some s \<and> toLowerCase s \<in>
         {''abandoned'', ''cancelled'', ''canceled'', ''timeout'', ''timed out'', ''expired''}))
   \<and> (normalizeStatus v = Other \<longleftrightarrow>
      (v = None \<or> (\<exists>s. v = Some s \<and> toLowerCase s \<notin>
         {''success'', ''successful'', ''failed'', ''failure'', ''error'',
          ''abandoned'', ''cancelled'', ''canceled'', ''timeout'', ''timed out'', ''expired''})))
   \<and> (toLowerCase s = toLowerCase t \<longrightarrow> normalizeStatus (Some s) = normalizeStatus (Some t))
   \<and> normalizeStatus (Some ''SUCCESSFUL'') = Success
   \<and> normalizeStatus (Some ''Timed Out'') = Abandoned
   \<and> normalizeStatus None = Other
   \<and> normalizeStatus (Some ''pending'') = Other"
proof -
  have lower_empty [simp]: "toLowerCase [] = []"
    by (simp add: toLowerCase_def)
  have cls: "\<And>u. normalizeStatus (Some u) =
      (if toLowerCase u \<in> {''success'', ''successful''} then Success
       else if toLowerCase u \<in> {''failed'', ''failure'', ''error''} then Failed
       else if toLowerCase u \<in>
         {''abandoned'', ''cancelled'', ''canceled'', ''timeout'', ''timed out'', ''expired''}
       then Abandoned else Other)"
    by (cases "u = []") (simp_all add: normalizeStatus_def truthy_str_def Let_def)
  have ex1: "toLowerCase ''SUCCESSFUL'' = ''successful''"
    by (simp add: toLowerCase_def lowerChar_def char_of_eq_iff)
  have ex2: "toLowerCase ''Timed Out'' = ''timed out''"
    by (simp add: toLowerCase_def lowerChar_def char_of_eq_iff)
  have ex3: "toLowerCase ''pending'' = ''pending''"
    by (simp add: toLowerCase_def lowerChar_def char_of_eq_iff)
  have none: "normalizeStatus None = Other"
    by (simp add: normalizeStatus_def)
  show ?thesis
  proof (cases v)
    case None
    then show ?thesis
      by (simp add: none cls ex1 ex2 ex3)
  next
    case (Some u)
    then show ?thesis
      by (simp add: none cls ex1 ex2 ex3)
  qed
qed

theorem normalizeStatus_classification_witness:
  "toLowerCase ''CANCELED'' = toLowerCase ''canceled''
   \<and> normalizeStatus (Some ''CANCELED'') = normalizeStatus (Some ''canceled'')
   \<and> normalizeStatus (Some ''CANCELED'') = Abandoned"
proof -
  have eq: "toLowerCase ''CANCELED'' = toLowerCase ''canceled''"
    by (simp add: toLowerCase_def lowerChar_def char_of_eq_iff)
  have low: "toLowerCase ''CANCELED'' = ''canceled''"
    by (simp add: toLowerCase_def lowerChar_def char_of_eq_iff)
  have same: "normalizeStatus (Some ''CANCELED'') = normalizeStatus (Some ''canceled'')"
    using normalizeStatus_classification [of "Some ''CANCELED''" "''CANCELED''" "''canceled''"] eq
    by blast
  have "normalizeStatus (Some ''CANCELED'') = Abandoned"
    using normalizeStatus_classification [of "Some ''CANCELED''" "''CANCELED''" "''canceled''"] low
    by simp
  with eq same show ?thesis by simp
qed

section \<open>Totality and well-formedness\<close>

lemma lowerChar_idem: "lowerChar (lowerChar c) = lowerChar c"
proof -
  have "(of_char c :: nat) < 256" by simp
  then show ?thesis
    by (auto simp add: lowerChar_def Let_def)
qed

lemma toLowerCase_idem: "toLowerCase (toLowerCase s) = toLowerCase s"
  by (simp add: toLowerCase_def lowerChar_idem)

lemma normalizeStatus_lower:
  "normalizeStatus (map_option toLowerCase v) = normalizeStatus v"
  by (cases v)
     (simp_all add: normalizeStatus_def truthy_str_def toLowerCase_idem Let_def toLowerCase_Nil_iff)

lemma asNumber_finite: "finiteOpt (asNumber B v)"
  by (simp add: asNumber_def finiteOpt_def Let_def split: jsvalue.splits)

lemma normalizeTransaction_None_iff: "normalizeTransaction B e = None \<longleftrightarrow> \<not> isRecord e"
  by (simp add: normalizeTransaction_def getRecord_def Let_def)

lemma normalizeTransaction_wf:
  "normalizeTransaction B e = Some t \<Longrightarrow> wellFormedTransaction t"
  by (auto simp add: normalizeTransaction_def wellFormedTransaction_def Let_def asNumber_finite
      normalizeStatus_lower split: option.splits)

lemma map_filter_wf:
  "list_all wellFormedTransaction (List.map_filter (normalizeTransaction B) xs)"
  by (induction xs)
     (auto simp add: List.map_filter_simps normalizeTransaction_wf split: option.splits)

lemma sumAmounts_truthy: "sumAmounts B txns = None \<or> truthy_onum (sumAmounts B txns)"
proof -
  have "js_gt0 n \<Longrightarrow> truthy_num n" for n
    by (cases n) (simp_all add: js_gt0_def truthy_num_def)
  then show ?thesis
    by (simp add: sumAmounts_def truthy_onum_def Let_def)
qed

lemma lengthNum_finite: "isFinite (lengthNum xs)"
  by (simp add: lengthNum_def isFinite_def)

lemma orElse_finite: "finiteOpt a \<Longrightarrow> finiteOpt b \<Longrightarrow> finiteOpt (orElse a b)"
  by (cases a) (simp_all add: orElse_def)

text \<open>
  C1. Every function of the model is a total HOL function over all values (envelope, bare
  array, wrapper object, string, number, boolean, null, undefined): each property read of
  the source is on a value that \<^verbatim>\<open>isRecord\<close> has narrowed or goes through \<^verbatim>\<open>?.\<close>, so no
  read can raise. For every input the result is well formed (each status is the
  classification of its raw status, the amounts, the total and the pagination numbers are
  finite, a total volume is neither 0 nor \<^verbatim>\<open>NaN\<close>) and \<^verbatim>\<open>meta.total\<close> is set. The
  empty object yields no transactions, total 0 and neither a volume nor a currency.
\<close>

theorem normalize_wellFormed:
  "wellFormedResult (normalizeTransactionsFromOutput B d)
   \<and> TransactionMeta.total (meta (normalizeTransactionsFromOutput B d)) \<noteq> None
   \<and> normalizeTransactionsFromOutput B (JObj []) =
       \<lparr> transactions = [],
         meta = \<lparr> total = Some (Fin 0), totalVolume = None, metaCurrency = None, message = None,
                  page = None, perPage = None, pageCount = None \<rparr> \<rparr>"
proof -
  have fin0: "\<And>xs::NormalizedTransaction list. finiteOpt (Some (lengthNum xs))"
    by (simp add: finiteOpt_def lengthNum_finite)
  have wf: "wellFormedResult (normalizeTransactionsFromOutput B d)"
    using sumAmounts_truthy [of B]
    by (simp add: wellFormedResult_def wellFormedMeta_def normalizeTransactionsFromOutput_def
        Let_def map_filter_wf asNumber_finite orElse_finite fin0 finiteOpt_def [of None])
  have tot: "TransactionMeta.total (meta (normalizeTransactionsFromOutput B d)) \<noteq> None"
    by (simp add: normalizeTransactionsFromOutput_def Let_def orElse_def split: option.splits)
  have empty: "normalizeTransactionsFromOutput B (JObj []) =
       \<lparr> transactions = [],
         meta = \<lparr> total = Some (Fin 0), totalVolume = None, metaCurrency = None, message = None,
                  page = None, perPage = None, pageCount = None \<rparr> \<rparr>"
    by (simp add: normalizeTransactionsFromOutput_def isTransactionPayload_def getRecord_def
        isRecord_def properties_def isArray_def extractTransactionArrays_def truthy_def
        possibleKeys_def List.map_filter_simps optProp_def asNumber_def asString_def coalesce_def
        nullish_def orElse_def lengthNum_def inferCurrency_def sumAmounts_def truthy_onum_def
        js_gt0_def Let_def)
  from wf tot empty show ?thesis by simp
qed

lemmas eval_defs =
  normalizeTransactionsFromOutput_def normalizeTransaction_def isTransactionPayload_def
  extractTransactionArrays_def possibleKeys_def getRecord_def isRecord_def properties_def
  isArray_def elements_def optProp_def coalesce_def nullish_def orElse_def truthy_def
  truthy_str_def truthy_num_def truthy_ostr_def truthy_onum_def asString_def asNumber_def
  toId_def trim_def isWhitespace_def isFinite_def js_gt0_def lengthNum_def sumAmounts_def
  inferCurrency_def normalizeStatus_def toLowerCase_def lowerChar_def char_of_eq_iff
  buildName_def extractErrorFromLog_def errorsBlock_def errorMessage_def isStringValue_def
  findBoolean_def exampleBuiltins_def Let_def

theorem normalize_wellFormed_witness:
  "wellFormedResult (normalizeTransactionsFromOutput exampleBuiltins
      (JObj [(''data'', JArr
         [JObj [(''id'', JStr ''1''), (''amount'', JNum (Fin 500)), (''status'', JStr ''success''),
                (''currency'', JStr ''NGN'')],
          JObj [(''id'', JStr ''2''), (''amount'', JNum (Fin 300)), (''status'', JStr ''ABANDONED''),
                (''currency'', JStr ''NGN'')]])]))
   \<and> normalizeTransactionsFromOutput exampleBuiltins
      (JObj [(''data'', JArr
         [JObj [(''id'', JStr ''1''), (''amount'', JNum (Fin 500)), (''status'', JStr ''success''),
                (''currency'', JStr ''NGN'')],
          JObj [(''id'', JStr ''2''), (''amount'', JNum (Fin 300)), (''status'', JStr ''ABANDONED''),
                (''currency'', JStr ''NGN'')]])])
     = \<lparr> transactions =
           [\<lparr> txnId = Some ''1'', status = Success, rawStatus = Some ''success'',
               customerName = None, customerEmail = None, failureReason = None,
               gatewayResponse = None, amount = Some (Fin 500), currency = Some ''NGN'',
               createdAt = None \<rparr>,
            \<lparr> txnId = Some ''2'', status = Abandoned, rawStatus = Some ''abandoned'',
               customerName = None, customerEmail = None, failureReason = None,
               gatewayResponse = None, amount = Some (Fin 300), currency = Some ''NGN'',
               createdAt = None \<rparr>],
         meta = \<lparr> total = Some (Fin 2), totalVolume = Some (Fin 800),
                  metaCurrency = Some ''NGN'', message = None, page = None, perPage = None,
                  pageCount = None \<rparr> \<rparr>"
proof -
  have v: "normalizeTransactionsFromOutput exampleBuiltins
      (JObj [(''data'', JArr
         [JObj [(''id'', JStr ''1''), (''amount'', JNum (Fin 500)), (''status'', JStr ''success''),
                (''currency'', JStr ''NGN'')],
          JObj [(''id'', JStr ''2''), (''amount'', JNum (Fin 300)), (''status'', JStr ''ABANDONED''),
                (''currency'', JStr ''NGN'')]])])
     = \<lparr> transactions =
           [\<lparr> txnId = Some ''1'', status = Success, rawStatus = Some ''success'',
               customerName = None, customerEmail = None, failureReason = None,
               gatewayResponse = None, amount = Some (Fin 500), currency = Some ''NGN'',
               createdAt = None \<rparr>,
            \<lparr> txnId = Some ''2'', status = Abandoned, rawStatus = Some ''abandoned'',
               customerName = None, customerEmail = None, failureReason = None,
               gatewayResponse = None, amount = Some (Fin 300), currency = Some ''NGN'',
               createdAt = None \<rparr>],
         meta = \<lparr> total = Some (Fin 2), totalVolume = Some (Fin 800),
                  metaCurrency = Some ''NGN'', message = None, page = None, perPage = None,
                  pageCount = None \<rparr> \<rparr>"
    by (simp add: eval_defs)
  have "wellFormedResult (normalizeTransactionsFromOutput exampleBuiltins
      (JObj [(''data'', JArr
         [JObj [(''id'', JStr ''1''), (''amount'', JNum (Fin 500)), (''status'', JStr ''success''),
                (''currency'', JStr ''NGN'')],
          JObj [(''id'', JStr ''2''), (''amount'', JNum (Fin 300)), (''status'', JStr ''ABANDONED''),
                (''currency'', JStr ''NGN'')]])]))"
    using normalize_wellFormed by blast
  with v show ?thesis by simp
qed

section \<open>Shape discovery and the transaction sequence\<close>

lemma map_filter_Some_filter:
  "map Some (List.map_filter f xs) = filter (\<lambda>x. x \<noteq> None) (map f xs)"
  by (induction xs) (auto simp add: List.map_filter_simps split: option.splits)

lemma normalizeTransaction_Some_isRecord:
  "normalizeTransaction B e = Some t \<Longrightarrow> isRecord e"
  using normalizeTransaction_None_iff [of B e] by auto

lemma length_map_filter_records:
  "length (List.map_filter (normalizeTransaction B) xs) = length xs - nonRecordCount xs"
proof -
  have "length (List.map_filter (normalizeTransaction B) xs) + nonRecordCount xs = length xs"
    by (induction xs)
       (auto simp add: List.map_filter_simps nonRecordCount_def normalizeTransaction_None_iff
          dest: normalizeTransaction_Some_isRecord split: option.splits)
  then show ?thesis by simp
qed

lemma envelope_transactions:
  "getProp kvs ''data'' = JArr xs \<Longrightarrow>
   transactions (normalizeTransactionsFromOutput B (JObj kvs)) =
     List.map_filter (normalizeTransaction B) xs"
  by (simp add: normalizeTransactionsFromOutput_def isTransactionPayload_def getRecord_def
      isRecord_def properties_def isArray_def elements_def Let_def)

lemma find_filter_firstArrayOf:
  "(case List.find isArray (filter isArray vs) of None \<Rightarrow> [] | Some a \<Rightarrow> elements a)
     = firstArrayOf vs"
proof (induction vs)
  case Nil
  then show ?case by simp
next
  case (Cons v vs)
  then show ?case by (cases v) (simp_all add: isArray_def elements_def)
qed

lemma array_transactions:
  "transactions (normalizeTransactionsFromOutput B (JArr xs)) =
     List.map_filter (normalizeTransaction B) xs"
  by (simp add: normalizeTransactionsFromOutput_def isTransactionPayload_def getRecord_def
      isRecord_def properties_def isArray_def elements_def Let_def extractTransactionArrays_def
      truthy_def)

lemma wrapper_transactions:
  "\<not> isArray (getProp kvs ''data'') \<Longrightarrow>
   transactions (normalizeTransactionsFromOutput B (JObj kvs)) =
     List.map_filter (normalizeTransaction B) (firstArrayOf (map (getProp kvs) possibleKeys))"
  by (simp add: normalizeTransactionsFromOutput_def isTransactionPayload_def getRecord_def
      isRecord_def properties_def Let_def extractTransactionArrays_def truthy_def
      find_filter_firstArrayOf isArray_def [of "JObj kvs"])

lemma primitive_transactions:
  "\<not> isRecord d \<Longrightarrow> transactions (normalizeTransactionsFromOutput B d) = []"
  by (cases d)
     (simp_all add: normalizeTransactionsFromOutput_def isTransactionPayload_def getRecord_def
        isRecord_def properties_def Let_def extractTransactionArrays_def truthy_def
        isArray_def List.map_filter_simps)

text \<open>
  C4, as stated: the transactions of an envelope are the normalizations of the entries of
  \<^verbatim>\<open>payload.data\<close> with the non-mapping entries dropped, so their number is
  \<^verbatim>\<open>payload.data.length\<close> minus the number of non-mapping entries. This fails on the
  envelope \<^verbatim>\<open>{ data: [[]] }\<close>: its one entry is an array, not a mapping, and it is kept.
\<close>

theorem envelope_array_entry_kept:
  "length (transactions (normalizeTransactionsFromOutput exampleBuiltins
             (JObj [(''data'', JArr [JArr []])])))
     \<noteq> length [JArr []] - nonMappingCount [JArr []]"
  by (simp add: eval_defs nonMappingCount_def isMapping_def)

text \<open>
  C4, amended. For every envelope (an object whose \<^verbatim>\<open>data\<close> is an array) the transactions
  are the normalizations of the entries of \<^verbatim>\<open>data\<close>, in source order, with the entries
  dropped that \<^verbatim>\<open>isRecord\<close> rejects; their number is the length of \<^verbatim>\<open>data\<close> minus the
  number of such entries. \<^verbatim>\<open>isRecord\<close> accepts mappings and arrays, so the dropped entries
  are exactly \<^verbatim>\<open>undefined\<close>, \<^verbatim>\<open>null\<close>, booleans, numbers and strings.
\<close>

theorem envelope_transactions_in_order:
  assumes "getProp kvs ''data'' = JArr xs"
  shows "map Some (transactions (normalizeTransactionsFromOutput B (JObj kvs)))
           = filter (\<lambda>t. t \<noteq> None) (map (normalizeTransaction B) xs)
         \<and> length (transactions (normalizeTransactionsFromOutput B (JObj kvs)))
           = length xs - nonRecordCount xs
         \<and> (normalizeTransaction B e = None \<longleftrightarrow> \<not> isRecord e)
         \<and> (isRecord e \<longleftrightarrow> isMapping e \<or> isArray e)"
proof -
  have rec: "isRecord e \<longleftrightarrow> isMapping e \<or> isArray e"
    by (cases e) (simp_all add: isRecord_def isMapping_def isArray_def)
  from assms show ?thesis
    by (simp add: envelope_transactions map_filter_Some_filter length_map_filter_records
        normalizeTransaction_None_iff rec)
qed

theorem envelope_transactions_in_order_witness:
  "length (transactions (normalizeTransactionsFromOutput exampleBuiltins
      (JObj [(''data'', JArr [JObj [(''id'', JStr ''1'')], JNum (Fin 5), JArr [], JNull])]))) = 2"
proof -
  have h: "getProp [(''data'', JArr [JObj [(''id'', JStr ''1'')], JNum (Fin 5), JArr [], JNull])]
             ''data'' = JArr [JObj [(''id'', JStr ''1'')], JNum (Fin 5), JArr [], JNull]"
    by simp
  show ?thesis
    using envelope_transactions_in_order [OF h, of exampleBuiltins JNull]
    by (simp add: nonRecordCount_def isRecord_def)
qed

text \<open>
  C5. Shape discovery. An object whose \<^verbatim>\<open>data\<close> is an array is an envelope and that array
  is processed, whatever its other fields hold. A bare array is processed itself. For an
  object whose \<^verbatim>\<open>data\<close> is not an array, the first array among the fields
  \<^verbatim>\<open>transactions\<close>, \<^verbatim>\<open>data\<close>, \<^verbatim>\<open>items\<close>, \<^verbatim>\<open>records\<close>, \<^verbatim>\<open>results\<close>, probed in this
  order, is processed; in particular the \<^verbatim>\<open>transactions\<close> array, when there is one. Every
  other value yields no transactions.
\<close>

theorem shape_discovery:
  "(getProp kvs ''data'' = JArr xs \<longrightarrow>
      transactions (normalizeTransactionsFromOutput B (JObj kvs))
        = List.map_filter (normalizeTransaction B) xs)
   \<and> transactions (normalizeTransactionsFromOutput B (JArr xs))
        = List.map_filter (normalizeTransaction B) xs
   \<and> (\<not> isArray (getProp kvs ''data'') \<longrightarrow>
      transactions (normalizeTransactionsFromOutput B (JObj kvs))
        = List.map_filter (normalizeTransaction B)
            (firstArrayOf (map (getProp kvs)
               [''transactions'', ''data'', ''items'', ''records'', ''results''])))
   \<and> (\<not> isArray (getProp kvs ''data'') \<and> getProp kvs ''transactions'' = JArr ts \<longrightarrow>
      transactions (normalizeTransactionsFromOutput B (JObj kvs))
        = List.map_filter (normalizeTransaction B) ts)
   \<and> (\<not> isMapping d \<and> \<not> isArray d \<longrightarrow>
      transactions (normalizeTransactionsFromOutput B d) = [])"
proof -
  have prim: "\<not> isMapping d \<and> \<not> isArray d \<longrightarrow> \<not> isRecord d"
    by (cases d) (simp_all add: isRecord_def isMapping_def isArray_def)
  have first: "getProp kvs ''transactions'' = JArr ts \<Longrightarrow>
      firstArrayOf (map (getProp kvs) possibleKeys) = ts"
    by (simp add: possibleKeys_def)
  show ?thesis
    using prim first
    by (auto simp add: envelope_transactions array_transactions wrapper_transactions
        primitive_transactions possibleKeys_def [symmetric])
qed

theorem shape_discovery_witness:
  "transactions (normalizeTransactionsFromOutput exampleBuiltins
      (JObj [(''transactions'', JArr [JNull]), (''data'', JArr [JNull, JNull])])) = []
   \<and> map txnId (transactions (normalizeTransactionsFromOutput exampleBuiltins
      (JObj [(''items'', JArr [JObj [(''id'', JStr ''i'')]]),
             (''transactions'', JArr [JObj [(''id'', JStr ''t'')]]),
             (''data'', JStr ''x'')]))) = [Some ''t'']
   \<and> transactions (normalizeTransactionsFromOutput exampleBuiltins (JStr ''x'')) = []"
proof -
  have a: "transactions (normalizeTransactionsFromOutput exampleBuiltins
      (JObj [(''transactions'', JArr [JNull]), (''data'', JArr [JNull, JNull])])) = []"
    using shape_discovery
      [of "[(''transactions'', JArr [JNull]), (''data'', JArr [JNull, JNull])]"
          "[JNull, JNull]" exampleBuiltins "[]" JNull]
    by (simp add: eval_defs)
  have b: "map txnId (transactions (normalizeTransactionsFromOutput exampleBuiltins
      (JObj [(''items'', JArr [JObj [(''id'', JStr ''i'')]]),
             (''transactions'', JArr [JObj [(''id'', JStr ''t'')]]),
             (''data'', JStr ''x'')]))) = [Some ''t'']"
    using shape_discovery
      [of "[(''items'', JArr [JObj [(''id'', JStr ''i'')]]),
            (''transactions'', JArr [JObj [(''id'', JStr ''t'')]]),
            (''data'', JStr ''x'')]"
          "[]" exampleBuiltins "[JObj [(''id'', JStr ''t'')]]" JNull]
    by (simp add: eval_defs)
  have c: "transactions (normalizeTransactionsFromOutput exampleBuiltins (JStr ''x'')) = []"
    using shape_discovery [of "[]" "[]" exampleBuiltins "[]" "JStr ''x''"]
    by (simp add: isMapping_def isArray_def)
  from a b c show ?thesis by simp
qed

section \<open>Total volume\<close>

lemma foldl_sumFrom:
  "foldl (\<lambda>acc txn. js_add B acc (case amount txn of None \<Rightarrow> Fin 0 | Some a \<Rightarrow> a)) z txns
     = sumFrom B z (map amountOrZero txns)"
  by (induction txns arbitrary: z) (simp_all add: amountOrZero_def)

lemma sumAmounts_amountTotal:
  "sumAmounts B txns = (if js_gt0 (amountTotal B txns) then Some (amountTotal B txns) else None)"
  by (simp add: sumAmounts_def amountTotal_def foldl_sumFrom Let_def)

lemma sumFrom_zero:
  "Round_of B 0 = Fin 0 \<Longrightarrow> list_all zeroAmount txns \<Longrightarrow>
   sumFrom B (Fin 0) (map amountOrZero txns) = Fin 0"
proof (induction txns)
  case Nil
  then show ?case by simp
next
  case (Cons t ts)
  then show ?case
    by (cases "amount t") (simp_all add: zeroAmount_def amountOrZero_def)
qed

lemma totalVolume_cases:
  "totalVolume (meta (normalizeTransactionsFromOutput B d)) =
     (if truthy_onum (reportedVolume B d) then reportedVolume B d
      else sumAmounts B (transactions (normalizeTransactionsFromOutput B d)))"
  by (simp add: normalizeTransactionsFromOutput_def reportedVolume_def Let_def)

lemma truthy_onum_asNumber:
  "finiteOpt x \<Longrightarrow> truthy_onum x \<longleftrightarrow> x \<noteq> None \<and> x \<noteq> Some (Fin 0)"
  by (cases x; cases "the x")
     (simp_all add: truthy_onum_def truthy_num_def finiteOpt_def isFinite_def)

lemma reportedVolume_finite: "finiteOpt (reportedVolume B d)"
  by (simp add: reportedVolume_def Let_def asNumber_finite)

text \<open>
  C3, as stated: \<^verbatim>\<open>meta.totalVolume\<close> is the volume the gateway reports whenever that is
  present and numeric, the minor-unit field and the plain field both being checked. This
  fails in two ways. When the gateway reports 0, as in
  \<^verbatim>\<open>{ data: [{ amount: 800 }], meta: { total_volume: 0 } }\<close>, the reported volume is the
  number 0 and \<^verbatim>\<open>meta.totalVolume\<close> is the derived sum 800. When \<^verbatim>\<open>total_volume\<close> is
  present but not numeric, as in
  \<^verbatim>\<open>{ data: [], meta: { total_volume: true, total_volume_in_minor: 500 } }\<close>, the numeric
  minor-unit field is not read and \<^verbatim>\<open>meta.totalVolume\<close> is absent.
\<close>

theorem reported_zero_volume_replaced:
  "reportedVolume exampleBuiltins
      (JObj [(''data'', JArr [JObj [(''amount'', JNum (Fin 800))]]),
             (''meta'', JObj [(''total_volume'', JNum (Fin 0))])]) = Some (Fin 0)
   \<and> totalVolume (meta (normalizeTransactionsFromOutput exampleBuiltins
      (JObj [(''data'', JArr [JObj [(''amount'', JNum (Fin 800))]]),
             (''meta'', JObj [(''total_volume'', JNum (Fin 0))])]))) = Some (Fin 800)
   \<and> asNumber exampleBuiltins (JNum (Fin 500)) = Some (Fin 500)
   \<and> totalVolume (meta (normalizeTransactionsFromOutput exampleBuiltins
      (JObj [(''data'', JArr []),
             (''meta'', JObj [(''total_volume'', JBool True),
                              (''total_volume_in_minor'', JNum (Fin 500))])]))) = None"
  by (simp add: eval_defs reportedVolume_def)

text \<open>
  C3, amended. For every input, \<^verbatim>\<open>meta.totalVolume\<close> is the reported volume when that is
  present and not zero, the reported volume being read from one field only:
  \<^verbatim>\<open>meta.total_volume\<close> when that is neither \<^verbatim>\<open>null\<close> nor \<^verbatim>\<open>undefined\<close>, else
  \<^verbatim>\<open>meta.total_volume_in_minor\<close> (for an envelope) or the \<^verbatim>\<open>total_volume\<close> of the value
  itself (for any other shape), and only when that field is numeric. Otherwise it is the sum
  of the amounts of the transactions, added in order as doubles, when that sum is strictly
  greater than zero, and absent when it is not. It is never 0: in particular, when no
  non-zero volume is reported and every amount is absent or 0, it is absent.
\<close>

theorem totalVolume_reported_or_derived:
  "totalVolume (meta (normalizeTransactionsFromOutput B d)) =
     (case reportedVolume B d of
        Some v \<Rightarrow>
          if v \<noteq> Fin 0 then Some v
          else if js_gt0 (amountTotal B (transactions (normalizeTransactionsFromOutput B d)))
               then Some (amountTotal B (transactions (normalizeTransactionsFromOutput B d)))
               else None
      | None \<Rightarrow>
          if js_gt0 (amountTotal B (transactions (normalizeTransactionsFromOutput B d)))
          then Some (amountTotal B (transactions (normalizeTransactionsFromOutput B d)))
          else None)
   \<and> totalVolume (meta (normalizeTransactionsFromOutput B d)) \<noteq> Some (Fin 0)
   \<and> (Round_of B 0 = Fin 0
       \<and> (reportedVolume B d = None \<or> reportedVolume B d = Some (Fin 0))
       \<and> list_all zeroAmount (transactions (normalizeTransactionsFromOutput B d))
      \<longrightarrow> totalVolume (meta (normalizeTransactionsFromOutput B d)) = None)"
proof -
  let ?txns = "transactions (normalizeTransactionsFromOutput B d)"
  have t: "truthy_onum (reportedVolume B d) \<longleftrightarrow>
      reportedVolume B d \<noteq> None \<and> reportedVolume B d \<noteq> Some (Fin 0)"
    by (rule truthy_onum_asNumber) (rule reportedVolume_finite)
  have gt: "js_gt0 n \<Longrightarrow> n \<noteq> Fin 0" for n
    by (auto simp add: js_gt0_def)
  have 1: "totalVolume (meta (normalizeTransactionsFromOutput B d)) =
     (case reportedVolume B d of
        Some v \<Rightarrow>
          if v \<noteq> Fin 0 then Some v
          else if js_gt0 (amountTotal B ?txns) then Some (amountTotal B ?txns) else None
      | None \<Rightarrow> if js_gt0 (amountTotal B ?txns) then Some (amountTotal B ?txns) else None)"
    unfolding totalVolume_cases t sumAmounts_amountTotal
    by (cases "reportedVolume B d") auto
  have 2: "totalVolume (meta (normalizeTransactionsFromOutput B d)) \<noteq> Some (Fin 0)"
    unfolding 1 using gt by (cases "reportedVolume B d") auto
  have 3: "totalVolume (meta (normalizeTransactionsFromOutput B d)) = None"
    if r: "Round_of B 0 = Fin 0"
      and v: "reportedVolume B d = None \<or> reportedVolume B d = Some (Fin 0)"
      and z: "list_all zeroAmount ?txns"
  proof -
    have "amountTotal B ?txns = Fin 0"
      unfolding amountTotal_def using r z by (rule sumFrom_zero)
    with v show ?thesis
      unfolding 1 by (auto simp add: js_gt0_def)
  qed
  from 1 2 3 show ?thesis by blast
qed

theorem totalVolume_reported_or_derived_witness:
  "totalVolume (meta (normalizeTransactionsFromOutput exampleBuiltins
      (JObj [(''data'', JArr [JObj [(''amount'', JNum (Fin 0))], JObj [(''amount'', JNum (Fin 0))]])])))
     = None"
proof -
  have r: "reportedVolume exampleBuiltins
      (JObj [(''data'', JArr [JObj [(''amount'', JNum (Fin 0))], JObj [(''amount'', JNum (Fin 0))]])])
      = None"
    by (simp add: eval_defs reportedVolume_def)
  have z: "list_all zeroAmount (transactions (normalizeTransactionsFromOutput exampleBuiltins
      (JObj [(''data'', JArr [JObj [(''amount'', JNum (Fin 0))], JObj [(''amount'', JNum (Fin 0))]])])))"
    by (simp add: eval_defs zeroAmount_def)
  have b: "Round_of exampleBuiltins 0 = Fin 0"
    by (simp add: exampleBuiltins_def)
  show ?thesis
    using totalVolume_reported_or_derived [of exampleBuiltins
      "JObj [(''data'', JArr [JObj [(''amount'', JNum (Fin 0))], JObj [(''amount'', JNum (Fin 0))]])]"]
      r z b
    by blast
qed

section \<open>Formatting\<close>

text \<open>
  C8. \<^verbatim>\<open>formatCurrencyAmount\<close> returns a string for every number and every currency,
  whatever the host formatters do: the \<^verbatim>\<open>catch\<close> absorbs their failure. With a non-empty
  currency code the result is the currency-formatted string, and when that formatting fails
  it is the code, a space and \<^verbatim>\<open>value.toLocaleString()\<close>, which contains the code. With no
  currency (absent or empty) the result is the decimal-formatted string, and
  \<^verbatim>\<open>value.toLocaleString()\<close> should the decimal formatter fail.
\<close>

theorem formatCurrencyAmount_absorbs_failure:
  "(c \<noteq> [] \<and> formatCurrency I c v = Inl e \<longrightarrow>
      formatCurrencyAmount I v (Some c) = c @ '' '' @ toLocaleString I v
      \<and> (\<exists>pre post. formatCurrencyAmount I v (Some c) = pre @ c @ post))
   \<and> (c \<noteq> [] \<and> formatCurrency I c v = Inr s \<longrightarrow> formatCurrencyAmount I v (Some c) = s)
   \<and> (formatDecimal I v = Inr s \<longrightarrow>
      formatCurrencyAmount I v None = s \<and> formatCurrencyAmount I v (Some []) = s)
   \<and> (formatDecimal I v = Inl e \<longrightarrow>
      formatCurrencyAmount I v None = toLocaleString I v
      \<and> formatCurrencyAmount I v (Some []) = toLocaleString I v)"
proof -
  have contains: "\<exists>pre post. c @ '' '' @ toLocaleString I v = pre @ c @ post"
    by (rule exI [of _ "[]"]) simp
  show ?thesis
    using contains
    by (auto simp add: formatCurrencyAmount_def truthy_str_def Let_def)
qed

theorem formatCurrencyAmount_absorbs_failure_witness:
  "formatCurrencyAmount exampleIntl (Fin 1234.5) (Some ''XXX'') = ''XXX 1,234.5''
   \<and> formatCurrencyAmount exampleIntl (Fin 1234.5) None = ''1,234.5''"
proof -
  have f: "formatCurrency exampleIntl ''XXX'' (Fin 1234.5) = Inl RangeError"
    by (simp add: exampleIntl_def)
  have g: "formatDecimal exampleIntl (Fin 1234.5) = Inr ''1,234.5''"
    by (simp add: exampleIntl_def)
  have h: "toLocaleString exampleIntl (Fin 1234.5) = ''1,234.5''"
    by (simp add: exampleIntl_def)
  show ?thesis
    using formatCurrencyAmount_absorbs_failure
      [of "''XXX''" exampleIntl "Fin 1234.5" RangeError "''1,234.5''"] f g h
    by simp
qed

section \<open>Trimmed strings\<close>

lemma dropWhile_last: "dropWhile P xs \<noteq> [] \<Longrightarrow> last (dropWhile P xs) = last xs"
  by (induction xs) (auto split: if_splits)

lemma trim_trimmed: "trim s \<noteq> [] \<Longrightarrow> trimmed (trim s)"
proof -
  assume ne: "trim s \<noteq> []"
  define u where "u = dropWhile isWhitespace s"
  define v where "v = dropWhile isWhitespace (rev u)"
  have tv: "trim s = rev v" by (simp add: trim_def u_def v_def)
  with ne have vne: "v \<noteq> []" by simp
  then have une: "u \<noteq> []" by (auto simp add: v_def)
  have hv: "\<not> isWhitespace (hd v)"
    using vne hd_dropWhile [of isWhitespace "rev u"] by (simp add: v_def)
  have hu: "\<not> isWhitespace (hd u)"
    using une hd_dropWhile [of isWhitespace s] by (simp add: u_def)
  have "last v = last (rev u)"
    using vne dropWhile_last [of isWhitespace "rev u"] by (simp add: v_def)
  then have lv: "last v = hd u" using une by (simp add: last_rev)
  have "hd (rev v) = last v" using vne by (simp add: hd_rev)
  moreover have "last (rev v) = hd v" using vne by (simp add: last_rev)
  ultimately show ?thesis using vne hv hu lv by (simp add: trimmed_def tv)
qed

lemma trimmed_trim: "trimmed s \<Longrightarrow> trim s = s"
proof -
  assume t: "trimmed s"
  then obtain c cs where s: "s = c # cs" by (cases s) (auto simp add: trimmed_def)
  from t s have 1: "dropWhile isWhitespace s = s" by (simp add: trimmed_def)
  from t have "rev s \<noteq> []" and "\<not> isWhitespace (hd (rev s))"
    by (simp_all add: trimmed_def hd_rev)
  then have 2: "dropWhile isWhitespace (rev s) = rev s" by (cases "rev s") auto
  show ?thesis by (simp add: trim_def 1 2)
qed

lemma trimmed_join: "trimmed a \<Longrightarrow> trimmed b \<Longrightarrow> trimmed (a @ CHR '' '' # b)"
  by (simp add: trimmed_def)

lemma trim_join:
  "trimmed a \<Longrightarrow> trimmed b \<Longrightarrow> trim (a @ CHR '' '' # b) = a @ CHR '' '' # b"
  by (rule trimmed_trim) (rule trimmed_join)

lemma asString_trimmed: "optTrimmed (asString v)"
  using trim_trimmed by (auto simp add: asString_def optTrimmed_def split: jsvalue.splits)





lemma orElse_trimmed: "optTrimmed a \<Longrightarrow> optTrimmed b \<Longrightarrow> optTrimmed (orElse a b)"
  by (cases a) (simp_all add: orElse_def optTrimmed_def)

lemma buildName_value:
  assumes "optTrimmed f" "optTrimmed l" "optTrimmed w"
  shows "buildName f l w =
     (case (f, l) of
        (Some a, Some b) \<Rightarrow> Some (a @ '' '' @ b)
      | (Some a, None) \<Rightarrow> Some a
      | (None, Some b) \<Rightarrow> Some b
      | (None, None) \<Rightarrow> w)"
proof -
  have ne: "\<And>x. trimmed x \<Longrightarrow> x \<noteq> []" by (simp add: trimmed_def)
  show ?thesis
    using assms
    by (cases f; cases l; cases w)
       (auto simp add: buildName_def optTrimmed_def truthy_str_def trimmed_trim trim_join
          Let_def dest: ne)
qed

lemma buildName_trimmed:
  assumes "optTrimmed f" "optTrimmed l" "optTrimmed w"
  shows "optTrimmed (buildName f l w)"
  using assms
  by (cases f; cases l; cases w)
     (auto simp add: buildName_value optTrimmed_def trimmed_join)






lemma normalizeTransaction_record:
  assumes "getRecord ev = Some entry"
  shows "normalizeTransaction B ev = Some
    \<lparr> txnId = toId B (coalesce (coalesce (coalesce (getProp entry ''id'')
               (getProp entry ''reference'')) (getProp entry ''transaction_id''))
               (getProp entry ''transactionId'')),
      status = normalizeStatus (asString (coalesce (coalesce (getProp entry ''status'')
               (getProp entry ''state'')) (getProp entry ''current_status''))),
      rawStatus = map_option toLowerCase (asString (coalesce (coalesce (getProp entry ''status'')
               (getProp entry ''state'')) (getProp entry ''current_status''))),
      customerName =
        orElse
          (buildName
            (asString (coalesce (getProp entry ''first_name'')
               (optProp (orElse (orElse (getRecord (getProp entry ''customer''))
                   (getRecord (getProp entry ''customer_data'')))
                   (getRecord (getProp entry ''customerDetails''))) ''first_name'')))
            (asString (coalesce (getProp entry ''last_name'')
               (optProp (orElse (orElse (getRecord (getProp entry ''customer''))
                   (getRecord (getProp entry ''customer_data'')))
                   (getRecord (getProp entry ''customerDetails''))) ''last_name'')))
            (asString (coalesce (coalesce (coalesce
               (optProp (orElse (orElse (getRecord (getProp entry ''customer''))
                   (getRecord (getProp entry ''customer_data'')))
                   (getRecord (getProp entry ''customerDetails''))) ''name'')
               (getProp entry ''customer_name'')) (getProp entry ''customerName''))
               (getProp entry ''name''))))
          (asString (optProp (getRecord (getProp entry ''authorization'')) ''account_name'')),
      customerEmail =
        orElse (orElse (orElse
          (asString (optProp (orElse (orElse (getRecord (getProp entry ''customer''))
                   (getRecord (getProp entry ''customer_data'')))
                   (getRecord (getProp entry ''customerDetails''))) ''email''))
          (asString (coalesce (coalesce (getProp entry ''customer_email'')
              (getProp entry ''email'')) (getProp entry ''customerEmail''))))
          (asString (optProp (getRecord (getProp entry ''authorization'')) ''email'')))
          (asString (optProp (getRecord (getProp entry ''metadata'')) ''email'')),
      failureReason =
        orElse (orElse (orElse
          (asString (coalesce (getProp entry ''gateway_response'')
                              (getProp entry ''gatewayResponse'')))
          (asString (coalesce (getProp entry ''failure_reason'') (getProp entry ''failureReason''))))
          (asString (coalesce (getProp entry ''reason'') (getProp entry ''status_reason''))))
          (extractErrorFromLog (getProp entry ''log'')),
      gatewayResponse = asString (coalesce (getProp entry ''gateway_response'')
                                           (getProp entry ''gatewayResponse'')),
      amount = asNumber B (coalesce (getProp entry ''amount'') (getProp entry ''amount_in_minor'')),
      currency = asString (getProp entry ''currency''),
      createdAt = asString (coalesce (getProp entry ''createdAt'') (getProp entry ''created_at'')) \<rparr>"
  using assms by (simp add: normalizeTransaction_def Let_def)





section \<open>Fallback chains\<close>

lemma coalesce_firstPresent2: "coalesce a b = firstPresent [a, b]"
  by (simp add: coalesce_def)


lemma coalesce_firstPresent4:
  "coalesce (coalesce (coalesce a b) c) d = firstPresent [a, b, c, d]"
  by (simp add: coalesce_def)

lemma customer_firstRecord:
  "orElse (orElse (getRecord (getProp entry ''customer''))
                  (getRecord (getProp entry ''customer_data'')))
          (getRecord (getProp entry ''customerDetails'')) = customerLike entry"
  by (simp add: customerLike_def orElse_def getRecord_def)

lemma accountName_eq:
  "asString (optProp (getRecord (getProp entry ''authorization'')) ''account_name'')
     = accountName entry"
  by (cases "getProp entry ''authorization''")
     (simp_all add: accountName_def optProp_def getRecord_def isRecord_def properties_def
        asString_def)

text \<open>
  C6, as stated: an entry that carries a first or last name part, at entry level or in a
  nested \<^verbatim>\<open>customer\<close>, \<^verbatim>\<open>customer_data\<close> or \<^verbatim>\<open>customerDetails\<close> sub-object, has the
  joined parts as \<^verbatim>\<open>customerName\<close>, and these win over any whole-name field. This fails in
  two ways. In \<^verbatim>\<open>{ first_name: " ", customer: { first_name: "Bea" }, customer_name: "Bob" }\<close>
  the blank entry-level part hides the part of the sub-object, and the name is the whole
  name \<^verbatim>\<open>"Bob"\<close>. In \<^verbatim>\<open>{ customer: {}, customer_data: { first_name: "Bea" } }\<close> only the
  first sub-object, which has no part, is read, and there is no name.
\<close>

theorem customerName_part_hidden:
  "map_option customerName (normalizeTransaction exampleBuiltins
      (JObj [(''first_name'', JStr '' ''), (''customer'', JObj [(''first_name'', JStr ''Bea'')]),
             (''customer_name'', JStr ''Bob'')])) = Some (Some ''Bob'')
   \<and> statedCustomerName
        [(''first_name'', JStr '' ''), (''customer'', JObj [(''first_name'', JStr ''Bea'')]),
         (''customer_name'', JStr ''Bob'')] = Some ''Bea''
   \<and> map_option customerName (normalizeTransaction exampleBuiltins
      (JObj [(''customer'', JObj []), (''customer_data'', JObj [(''first_name'', JStr ''Bea'')])]))
     = Some None
   \<and> statedCustomerName
        [(''customer'', JObj []), (''customer_data'', JObj [(''first_name'', JStr ''Bea'')])]
     = Some ''Bea''"
  by (simp add: eval_defs statedCustomerName_def statedNamePart_def)

text \<open>
  C6, amended. The customer-like sub-object is the first of \<^verbatim>\<open>customer\<close>,
  \<^verbatim>\<open>customer_data\<close>, \<^verbatim>\<open>customerDetails\<close> that is an object; the later ones are not read,
  even when it lacks a field. A name part is read from one value: the entry-level field when
  that is neither \<^verbatim>\<open>null\<close> nor \<^verbatim>\<open>undefined\<close>, else the field of the sub-object; the part
  exists when that value is a non-blank string, so a blank or non-string entry-level value is
  not passed over. When both parts exist \<^verbatim>\<open>customerName\<close> is the first, a single space and
  the last; when one exists it is that part; whatever the whole-name fields hold. When no
  part exists it is the whole name, read from the first of the sub-object's \<^verbatim>\<open>name\<close> and
  the entry's \<^verbatim>\<open>customer_name\<close>, \<^verbatim>\<open>customerName\<close>, \<^verbatim>\<open>name\<close> that is neither \<^verbatim>\<open>null\<close>
  nor \<^verbatim>\<open>undefined\<close>, when that value is a non-blank string; else
  \<^verbatim>\<open>authorization.account_name\<close>. Every value is read trimmed, a blank one is absent, and
  the result is absent or trimmed.
\<close>

theorem customerName_fallback:
  assumes "getRecord ev = Some entry" and "normalizeTransaction B ev = Some t"
  shows "customerName t =
           (case (namePart entry ''first_name'', namePart entry ''last_name'') of
              (Some f, Some l) \<Rightarrow> Some (f @ '' '' @ l)
            | (Some f, None) \<Rightarrow> Some f
            | (None, Some l) \<Rightarrow> Some l
            | (None, None) \<Rightarrow> firstDefined [wholeName entry, accountName entry])
         \<and> optTrimmed (customerName t)"
proof -
  note rec = normalizeTransaction_record [OF assms(1), of B]
  from assms(2) rec have t: "t = the (normalizeTransaction B ev)" by simp
  have name: "customerName t =
      orElse (buildName (namePart entry ''first_name'') (namePart entry ''last_name'')
                (wholeName entry)) (accountName entry)"
    unfolding namePart_def wholeName_def coalesce_firstPresent2 [symmetric]
      coalesce_firstPresent4 [symmetric] customer_firstRecord [symmetric]
      accountName_eq [symmetric]
    unfolding t rec by simp
  have tr: "optTrimmed (namePart entry ''first_name'')" "optTrimmed (namePart entry ''last_name'')"
    "optTrimmed (wholeName entry)"
    by (simp_all add: namePart_def wholeName_def asString_trimmed)
  have acc: "optTrimmed (accountName entry)"
    unfolding accountName_eq [symmetric] by (rule asString_trimmed)
  have val: "customerName t =
           (case (namePart entry ''first_name'', namePart entry ''last_name'') of
              (Some f, Some l) \<Rightarrow> Some (f @ '' '' @ l)
            | (Some f, None) \<Rightarrow> Some f
            | (None, Some l) \<Rightarrow> Some l
            | (None, None) \<Rightarrow> firstDefined [wholeName entry, accountName entry])"
    unfolding name buildName_value [OF tr]
    by (cases "namePart entry ''first_name''"; cases "namePart entry ''last_name''";
        cases "wholeName entry"; cases "accountName entry")
       (simp_all add: orElse_def)
  have "optTrimmed (customerName t)"
    unfolding name by (intro orElse_trimmed buildName_trimmed tr acc)
  with val show ?thesis by simp
qed

theorem customerName_fallback_witness:
  "map_option customerName (normalizeTransaction exampleBuiltins
      (JObj [(''first_name'', JStr ''Ada''), (''customer_name'', JStr ''Someone Else''),
             (''customer'', JObj [(''last_name'', JStr '' Obi '')])]))
     = Some (Some ''Ada Obi'')"
proof -
  have g: "getRecord (JObj [(''first_name'', JStr ''Ada''), (''customer_name'', JStr ''Someone Else''),
             (''customer'', JObj [(''last_name'', JStr '' Obi '')])])
      = Some [(''first_name'', JStr ''Ada''), (''customer_name'', JStr ''Someone Else''),
             (''customer'', JObj [(''last_name'', JStr '' Obi '')])]"
    by (simp add: getRecord_def isRecord_def properties_def)
  obtain t where n: "normalizeTransaction exampleBuiltins
      (JObj [(''first_name'', JStr ''Ada''), (''customer_name'', JStr ''Someone Else''),
             (''customer'', JObj [(''last_name'', JStr '' Obi '')])]) = Some t"
    using normalizeTransaction_record [OF g] by blast
  have f: "namePart [(''first_name'', JStr ''Ada''), (''customer_name'', JStr ''Someone Else''),
             (''customer'', JObj [(''last_name'', JStr '' Obi '')])] ''first_name'' = Some ''Ada''"
    by (simp add: namePart_def customerLike_def eval_defs)
  have l: "namePart [(''first_name'', JStr ''Ada''), (''customer_name'', JStr ''Someone Else''),
             (''customer'', JObj [(''last_name'', JStr '' Obi '')])] ''last_name'' = Some ''Obi''"
    by (simp add: namePart_def customerLike_def eval_defs)
  show ?thesis
    using customerName_fallback [OF g n] by (simp add: n f l)
qed













section \<open>The component's copy against the library\<close>

lemma coreFields_agree:
  "map_option coreFields (normalizeTransaction B e)
     = map_option c_coreFields (c_normalizeTransaction B e)"
  by (simp add: normalizeTransaction_def c_normalizeTransaction_def Let_def coreFields_def
      c_coreFields_def split: option.splits)

lemma map_filter_coreFields:
  "map coreFields (List.map_filter (normalizeTransaction B) xs)
     = map c_coreFields (List.map_filter (c_normalizeTransaction B) xs)"
proof (induction xs)
  case Nil
  then show ?case by (simp add: List.map_filter_simps)
next
  case (Cons x xs)
  then show ?case
    using coreFields_agree [of B x]
    by (cases "normalizeTransaction B x"; cases "c_normalizeTransaction B x")
       (simp_all add: List.map_filter_simps)
qed

lemma coreFields_lengthNum:
  "map coreFields txns = map c_coreFields ctxns \<Longrightarrow> lengthNum txns = lengthNum ctxns"
  using map_eq_imp_length_eq [of coreFields txns c_coreFields ctxns]
  by (simp add: lengthNum_def)

lemma coreFields_inferCurrency:
  "map coreFields txns = map c_coreFields ctxns \<Longrightarrow> inferCurrency txns = c_inferCurrency ctxns"
proof (induction txns arbitrary: ctxns)
  case Nil
  then show ?case by (simp add: inferCurrency_def c_inferCurrency_def)
next
  case (Cons t ts)
  then obtain c cs where cs: "ctxns = c # cs" by (cases ctxns) auto
  with Cons.prems have hd0: "coreFields t = c_coreFields c"
    and tl: "map coreFields ts = map c_coreFields cs"
    by simp_all
  from hd0 have hd: "currency t = c_currency c"
    by (simp add: coreFields_def c_coreFields_def)
  from Cons.IH [OF tl] hd cs show ?case
    by (simp add: inferCurrency_def c_inferCurrency_def)
qed

lemma coreFields_foldl:
  "map coreFields txns = map c_coreFields ctxns \<Longrightarrow>
   foldl (\<lambda>acc txn. js_add B acc (case amount txn of None \<Rightarrow> Fin 0 | Some a \<Rightarrow> a)) z txns
     = foldl (\<lambda>acc txn. js_add B acc (case c_amount txn of None \<Rightarrow> Fin 0 | Some a \<Rightarrow> a)) z
         ctxns"
proof (induction txns arbitrary: ctxns z)
  case Nil
  then show ?case by simp
next
  case (Cons t ts)
  then obtain c cs where cs: "ctxns = c # cs" by (cases ctxns) auto
  with Cons.prems have hd0: "coreFields t = c_coreFields c"
    and tl: "map coreFields ts = map c_coreFields cs"
    by simp_all
  from hd0 have hd: "amount t = c_amount c"
    by (simp add: coreFields_def c_coreFields_def)
  from Cons.IH [OF tl] hd cs show ?case by simp
qed

lemma coreFields_sumAmounts:
  "map coreFields txns = map c_coreFields ctxns \<Longrightarrow> sumAmounts B txns = c_sumAmounts B ctxns"
  by (simp add: sumAmounts_def c_sumAmounts_def coreFields_foldl)

lemmas map_filter_agree =
  coreFields_lengthNum [OF map_filter_coreFields]
  coreFields_inferCurrency [OF map_filter_coreFields]
  coreFields_sumAmounts [OF map_filter_coreFields]

lemma results_coreFields:
  "map coreFields (transactions (normalizeTransactionsFromOutput B d))
     = map c_coreFields (c_transactions (c_normalizeTransactionsFromOutput B d))"
  by (simp add: normalizeTransactionsFromOutput_def c_normalizeTransactionsFromOutput_def
      Let_def map_filter_coreFields)

lemma results_total:
  "TransactionMeta.total (meta (normalizeTransactionsFromOutput B d))
     = c_total (c_meta (c_normalizeTransactionsFromOutput B d))"
  by (simp add: normalizeTransactionsFromOutput_def c_normalizeTransactionsFromOutput_def
      Let_def map_filter_agree)

lemma results_currency:
  "metaCurrency (meta (normalizeTransactionsFromOutput B d))
     = c_metaCurrency (c_meta (c_normalizeTransactionsFromOutput B d))"
  by (simp add: normalizeTransactionsFromOutput_def c_normalizeTransactionsFromOutput_def
      Let_def map_filter_agree)

lemma results_message:
  "message (meta (normalizeTransactionsFromOutput B d))
     = c_message (c_meta (c_normalizeTransactionsFromOutput B d))"
  by (simp add: normalizeTransactionsFromOutput_def c_normalizeTransactionsFromOutput_def Let_def)

lemma results_totalVolume:
  assumes "isTransactionPayload d \<longrightarrow>
             \<not> nullish (optProp (envelopeMeta d) ''total_volume'')
             \<or> nullish (optProp (envelopeMeta d) ''total_volume_in_minor'')"
  shows "totalVolume (meta (normalizeTransactionsFromOutput B d))
     = c_totalVolume (c_meta (c_normalizeTransactionsFromOutput B d))"
proof (cases "isTransactionPayload d")
  case True
  with assms have "coalesce (optProp (envelopeMeta d) ''total_volume'')
       (optProp (envelopeMeta d) ''total_volume_in_minor'')
     = optProp (envelopeMeta d) ''total_volume''
     \<or> asNumber B (coalesce (optProp (envelopeMeta d) ''total_volume'')
       (optProp (envelopeMeta d) ''total_volume_in_minor'')) = None
       \<and> asNumber B (optProp (envelopeMeta d) ''total_volume'') = None"
    by (auto simp add: coalesce_def nullish_def asNumber_def split: jsvalue.splits)
  with True show ?thesis
    by (auto simp add: normalizeTransactionsFromOutput_def c_normalizeTransactionsFromOutput_def
        Let_def map_filter_agree envelopeMeta_def truthy_onum_def)
next
  case False
  then show ?thesis
    by (simp add: normalizeTransactionsFromOutput_def c_normalizeTransactionsFromOutput_def
        Let_def map_filter_agree)
qed

lemma asString_coalesce_swap:
  "nullish a \<or> nullish b \<Longrightarrow> asString (coalesce a b) = asString (coalesce b a)"
  by (cases a; cases b) (simp_all add: coalesce_def nullish_def asString_def)

lemma asString_coalesce_nullish:
  "nullish c \<Longrightarrow> asString (coalesce x c) = asString x"
  by (cases x; cases c) (simp_all add: coalesce_def nullish_def asString_def)

lemma customerName_agree:
  assumes "getRecord ev = Some entry"
    and "nullish (getProp entry ''first_name'') \<or> nullish (optProp (customerLike entry) ''first_name'')"
    and "nullish (getProp entry ''last_name'') \<or> nullish (optProp (customerLike entry) ''last_name'')"
  shows "map_option customerName (normalizeTransaction B ev)
           = map_option c_customerName (c_normalizeTransaction B ev)"
proof -
  have f: "asString (coalesce (getProp entry ''first_name'')
                              (optProp (customerLike entry) ''first_name''))
         = asString (coalesce (optProp (customerLike entry) ''first_name'')
                              (getProp entry ''first_name''))"
    using assms(2) by (rule asString_coalesce_swap)
  have l: "asString (coalesce (getProp entry ''last_name'')
                              (optProp (customerLike entry) ''last_name''))
         = asString (coalesce (optProp (customerLike entry) ''last_name'')
                              (getProp entry ''last_name''))"
    using assms(3) by (rule asString_coalesce_swap)
  show ?thesis
    using assms(1)
    by (simp add: normalizeTransaction_def c_normalizeTransaction_def Let_def
        customer_firstRecord f l)
qed

lemma customerEmail_agree:
  assumes "getRecord ev = Some entry" and "nullish (getProp entry ''customerEmail'')"
  shows "map_option customerEmail (normalizeTransaction B ev)
           = map_option c_customerEmail (c_normalizeTransaction B ev)"
  using assms
  by (simp add: normalizeTransaction_def c_normalizeTransaction_def Let_def
      asString_coalesce_nullish)

text \<open>
  C10, as stated: the component's copy computes the library's result on every shared field.
  This fails on three fields. The component reads the first and last name in the customer
  sub-object before the entry, the library the other way round; the component does not read
  \<^verbatim>\<open>entry.customerEmail\<close>; and for an envelope it does not read
  \<^verbatim>\<open>meta.total_volume_in_minor\<close>.
\<close>

theorem component_differs_from_library:
  "map_option customerName (normalizeTransaction exampleBuiltins
      (JObj [(''first_name'', JStr ''Ada''), (''customer'', JObj [(''first_name'', JStr ''Bea'')])]))
     = Some (Some ''Ada'')
   \<and> map_option c_customerName (c_normalizeTransaction exampleBuiltins
      (JObj [(''first_name'', JStr ''Ada''), (''customer'', JObj [(''first_name'', JStr ''Bea'')])]))
     = Some (Some ''Bea'')
   \<and> map_option customerEmail (normalizeTransaction exampleBuiltins
      (JObj [(''customerEmail'', JStr ''ada@example.com'')])) = Some (Some ''ada@example.com'')
   \<and> map_option c_customerEmail (c_normalizeTransaction exampleBuiltins
      (JObj [(''customerEmail'', JStr ''ada@example.com'')])) = Some None
   \<and> totalVolume (meta (normalizeTransactionsFromOutput exampleBuiltins
      (JObj [(''data'', JArr []), (''meta'', JObj [(''total_volume_in_minor'', JNum (Fin 500))])])))
     = Some (Fin 500)
   \<and> c_totalVolume (c_meta (c_normalizeTransactionsFromOutput exampleBuiltins
      (JObj [(''data'', JArr []), (''meta'', JObj [(''total_volume_in_minor'', JNum (Fin 500))])])))
     = None"
  by (simp add: eval_defs c_normalizeTransaction_def c_normalizeTransactionsFromOutput_def
      c_sumAmounts_def c_inferCurrency_def)

text \<open>
  C10, amended. For every input the two normalizers agree, transaction by transaction and
  in order, on \<^verbatim>\<open>id\<close>, \<^verbatim>\<open>status\<close>, \<^verbatim>\<open>rawStatus\<close>, \<^verbatim>\<open>failureReason\<close>, \<^verbatim>\<open>amount\<close>,
  \<^verbatim>\<open>currency\<close> and \<^verbatim>\<open>createdAt\<close>, and on the \<^verbatim>\<open>total\<close>, \<^verbatim>\<open>currency\<close> and \<^verbatim>\<open>message\<close>
  of the meta. They agree on \<^verbatim>\<open>totalVolume\<close> when the input is not an envelope, or its meta
  has a \<^verbatim>\<open>total_volume\<close>, or has no \<^verbatim>\<open>total_volume_in_minor\<close>. On an entry they agree on
  \<^verbatim>\<open>customerName\<close> when each name part is missing at entry level or in the customer
  sub-object, and on \<^verbatim>\<open>customerEmail\<close> when the entry has no \<^verbatim>\<open>customerEmail\<close> field.
\<close>

theorem component_agrees_with_library:
  "map coreFields (transactions (normalizeTransactionsFromOutput B d))
     = map c_coreFields (c_transactions (c_normalizeTransactionsFromOutput B d))
   \<and> TransactionMeta.total (meta (normalizeTransactionsFromOutput B d))
     = c_total (c_meta (c_normalizeTransactionsFromOutput B d))
   \<and> metaCurrency (meta (normalizeTransactionsFromOutput B d))
     = c_metaCurrency (c_meta (c_normalizeTransactionsFromOutput B d))
   \<and> message (meta (normalizeTransactionsFromOutput B d))
     = c_message (c_meta (c_normalizeTransactionsFromOutput B d))
   \<and> ((isTransactionPayload d \<longrightarrow>
         \<not> nullish (optProp (envelopeMeta d) ''total_volume'')
         \<or> nullish (optProp (envelopeMeta d) ''total_volume_in_minor''))
      \<longrightarrow> totalVolume (meta (normalizeTransactionsFromOutput B d))
         = c_totalVolume (c_meta (c_normalizeTransactionsFromOutput B d)))
   \<and> (getRecord ev = Some entry
       \<and> (nullish (getProp entry ''first_name'')
          \<or> nullish (optProp (customerLike entry) ''first_name''))
       \<and> (nullish (getProp entry ''last_name'')
          \<or> nullish (optProp (customerLike entry) ''last_name''))
      \<longrightarrow> map_option customerName (normalizeTransaction B ev)
         = map_option c_customerName (c_normalizeTransaction B ev))
   \<and> (getRecord ev = Some entry \<and> nullish (getProp entry ''customerEmail'')
      \<longrightarrow> map_option customerEmail (normalizeTransaction B ev)
         = map_option c_customerEmail (c_normalizeTransaction B ev))"
  using results_coreFields [of B d] results_total [of B d] results_currency [of B d]
    results_message [of B d] results_totalVolume [of d B]
    customerName_agree [of ev entry B] customerEmail_agree [of ev entry B]
  by blast

theorem component_agrees_with_library_witness:
  "totalVolume (meta (normalizeTransactionsFromOutput exampleBuiltins
      (JObj [(''data'', JArr [JObj [(''amount'', JNum (Fin 500)), (''first_name'', JStr ''Ada'')]])])))
     = c_totalVolume (c_meta (c_normalizeTransactionsFromOutput exampleBuiltins
      (JObj [(''data'', JArr [JObj [(''amount'', JNum (Fin 500)), (''first_name'', JStr ''Ada'')]])])))
   \<and> map_option customerName (normalizeTransaction exampleBuiltins
        (JObj [(''amount'', JNum (Fin 500)), (''first_name'', JStr ''Ada'')]))
     = map_option c_customerName (c_normalizeTransaction exampleBuiltins
        (JObj [(''amount'', JNum (Fin 500)), (''first_name'', JStr ''Ada'')]))
   \<and> map_option customerEmail (normalizeTransaction exampleBuiltins
        (JObj [(''amount'', JNum (Fin 500)), (''first_name'', JStr ''Ada'')]))
     = map_option c_customerEmail (c_normalizeTransaction exampleBuiltins
        (JObj [(''amount'', JNum (Fin 500)), (''first_name'', JStr ''Ada'')]))"
proof -
  have g: "getRecord (JObj [(''amount'', JNum (Fin 500)), (''first_name'', JStr ''Ada'')])
      = Some [(''amount'', JNum (Fin 500)), (''first_name'', JStr ''Ada'')]"
    by (simp add: getRecord_def isRecord_def properties_def)
  have c: "customerLike [(''amount'', JNum (Fin 500)), (''first_name'', JStr ''Ada'')] = None"
    by (simp add: customerLike_def isRecord_def)
  have m: "envelopeMeta
      (JObj [(''data'', JArr [JObj [(''amount'', JNum (Fin 500)), (''first_name'', JStr ''Ada'')]])])
      = None"
    by (simp add: envelopeMeta_def properties_def getRecord_def isRecord_def)
  show ?thesis
    using component_agrees_with_library [of exampleBuiltins
      "JObj [(''data'', JArr [JObj [(''amount'', JNum (Fin 500)), (''first_name'', JStr ''Ada'')]])]"
      "JObj [(''amount'', JNum (Fin 500)), (''first_name'', JStr ''Ada'')]"
      "[(''amount'', JNum (Fin 500)), (''first_name'', JStr ''Ada'')]"]
    by (simp add: g c m optProp_def nullish_def)
qed

end
